theory Spec2Isabelle
  imports Complex_Main
begin

section \<open>Data model\<close>

text \<open>
  The module \<^verbatim>\<open>causality/estimation/parametric.py\<close> works on pandas data frames.
  A data frame is modelled by its row count and its columns in order, each column a
  name with its cells. Rows are addressed by position (the default index of a frame);
  all the code's row selections are by boolean mask or by position.

  A cell is a number, a string (a categorical label) or the array of neighbour
  positions that \<^verbatim>\<open>match\<close> stores in the column \<^verbatim>\<open>matches\<close>. Numbers are
  idealised as reals; the one non-finite float the code can produce from finite cells,
  the mean of an empty column, is kept apart as \<open>NaN\<close>.
\<close>

datatype val = Num real | Str string | Matches "nat list"

datatype pyfloat = NaN | Fin real

text \<open>
  Exceptions. The first six are the Python exceptions the code itself can raise.
  \<open>DataError\<close> and \<open>EstimationError\<close> are the two classes the specification names;
  the source defines neither and has no \<^verbatim>\<open>raise\<close> statement, so in the model they
  can only come out of a library routine. \<open>LibraryError\<close> stands for any other
  exception of a library routine.
\<close>

datatype error =
    KeyError string
  | TypeError
  | ValueError
  | IndexError
  | ZeroDivisionError
  | NameError string
  | DataError
  | EstimationError
  | LibraryError string

record dataframe =
  nrows :: nat
  cols :: "(string \<times> val list) list"

definition wf_df :: "dataframe \<Rightarrow> bool" where
  "wf_df X = list_all (\<lambda>cv. length (snd cv) = nrows X) (cols X)"

text \<open>Sequencing of computations that may raise.\<close>

fun bind_err :: "error + 'a \<Rightarrow> ('a \<Rightarrow> error + 'b) \<Rightarrow> error + 'b" where
  "bind_err (Inl e) f = Inl e"
| "bind_err (Inr x) f = f x"

text \<open>\<^verbatim>\<open>X[c]\<close>: the column named \<open>c\<close>, or \<^verbatim>\<open>KeyError\<close>.\<close>

definition column :: "dataframe \<Rightarrow> string \<Rightarrow> error + val list" where
  "column X c = (case map_of (cols X) c of None \<Rightarrow> Inl (KeyError c) | Some vs \<Rightarrow> Inr vs)"

text \<open>\<^verbatim>\<open>X[[c1, ..., cn]]\<close>: a new frame of the named columns, or \<^verbatim>\<open>KeyError\<close>.\<close>

fun select_cols_list :: "dataframe \<Rightarrow> string list \<Rightarrow> error + (string \<times> val list) list" where
  "select_cols_list X [] = Inr []"
| "select_cols_list X (c # cs) =
     bind_err (column X c) (\<lambda>vs.
     bind_err (select_cols_list X cs) (\<lambda>rest. Inr ((c, vs) # rest)))"

definition select_cols :: "dataframe \<Rightarrow> string list \<Rightarrow> error + dataframe" where
  "select_cols X cs =
     bind_err (select_cols_list X cs) (\<lambda>l. Inr \<lparr>nrows = nrows X, cols = l\<rparr>)"

text \<open>\<^verbatim>\<open>s == x\<close> on a column: the boolean mask of the cells equal to the number \<open>x\<close>.\<close>

definition eq_num :: "val list \<Rightarrow> real \<Rightarrow> bool list" where
  "eq_num vs x = map (\<lambda>v. v = Num x) vs"

text \<open>\<^verbatim>\<open>X[mask]\<close>: a new frame of the rows where the mask holds.\<close>

definition keep :: "bool list \<Rightarrow> 'a list \<Rightarrow> 'a list" where
  "keep flags vs = map fst (filter snd (zip vs flags))"

definition select_rows :: "dataframe \<Rightarrow> bool list \<Rightarrow> dataframe" where
  "select_rows X flags =
     \<lparr>nrows = length (filter id flags), cols = map (\<lambda>cv. (fst cv, keep flags (snd cv))) (cols X)\<rparr>"

text \<open>
  \<^verbatim>\<open>X[c] = vs\<close> and \<^verbatim>\<open>X.loc[:, c] = vs\<close>: an existing column is replaced where
  it stands, a new one is added after the last.
\<close>

fun set_col_list :: "(string \<times> val list) list \<Rightarrow> string \<Rightarrow> val list \<Rightarrow> (string \<times> val list) list" where
  "set_col_list [] c vs = [(c, vs)]"
| "set_col_list (p # ps) c vs = (if fst p = c then (c, vs) # ps else p # set_col_list ps c vs)"

definition set_col :: "dataframe \<Rightarrow> string \<Rightarrow> val list \<Rightarrow> dataframe" where
  "set_col X c vs = X\<lparr>cols := set_col_list (cols X) c vs\<rparr>"

section \<open>DifferenceInDifferences\<close>

text \<open>
  The regression classes \<^verbatim>\<open>RLM\<close> and \<^verbatim>\<open>OLS\<close> of statsmodels are not part of the
  repository: a regression is a parameter, a function from the endogenous column and the
  design frame to either an exception or the fitted result, of which the code reads the
  confidence intervals and the parameters by name.
\<close>

record fit_result =
  conf_int :: "(string \<times> pyfloat \<times> pyfloat) list"
  params :: "(string \<times> pyfloat) list"

type_synonym regression = "val list \<Rightarrow> dataframe \<Rightarrow> error + fit_result"

record did =
  model :: regression

text \<open>\<^verbatim>\<open>__init__(self, robust=True)\<close>, lines 9 to 22.\<close>

definition DifferenceInDifferences_init :: "regression \<Rightarrow> regression \<Rightarrow> bool \<Rightarrow> did" where
  "DifferenceInDifferences_init RLM OLS robust = \<lparr>model = (if robust then RLM else OLS)\<rparr>"

text \<open>
  One block of the panel, lines 35 to 48:
  \<^verbatim>\<open>pd.DataFrame({'y': ys, 'assignment': [a for i in ys], 't': [t for i in ys]})\<close>.
\<close>

definition panel_block :: "val list \<Rightarrow> real \<Rightarrow> real \<Rightarrow> dataframe" where
  "panel_block ys a t =
     \<lparr>nrows = length ys,
      cols = [(''y'', ys),
              (''assignment'', map (\<lambda>i. Num a) ys),
              (''t'', map (\<lambda>i. Num t) ys)]\<rparr>"

text \<open>\<^verbatim>\<open>df.append(other)\<close> for two frames with the same columns: the rows of the second after the rows of the first.\<close>

definition append_df :: "dataframe \<Rightarrow> dataframe \<Rightarrow> error + dataframe" where
  "append_df df other =
     bind_err (select_cols_list other (map fst (cols df))) (\<lambda>l.
     Inr \<lparr>nrows = nrows df + nrows other,
          cols = map (\<lambda>(cv, cw). (fst cv, snd cv @ snd cw)) (zip (cols df) l)\<rparr>)"

text \<open>The product of two columns, cell by cell; only numbers multiply.\<close>

fun mul_val :: "val \<Rightarrow> val \<Rightarrow> error + val" where
  "mul_val (Num a) (Num b) = Inr (Num (a * b))"
| "mul_val _ _ = Inl TypeError"

fun mul_col :: "val list \<Rightarrow> val list \<Rightarrow> error + val list" where
  "mul_col (v # vs) (w # ws) =
     bind_err (mul_val v w) (\<lambda>x. bind_err (mul_col vs ws) (\<lambda>xs. Inr (x # xs)))"
| "mul_col _ _ = Inr []"

text \<open>
  Lines 25 to 51 of \<^verbatim>\<open>average_treatment_effect\<close>: the panel-form data set. The
  column names \<^verbatim>\<open>'Assignment'\<close>, \<^verbatim>\<open>'Start'\<close> and \<^verbatim>\<open>'End'\<close> are string literals
  in the source; the parameters \<^verbatim>\<open>start\<close>, \<^verbatim>\<open>end\<close> and \<^verbatim>\<open>assignment\<close> do not
  occur in the body.
\<close>

definition did_panel :: "dataframe \<Rightarrow> error + dataframe" where
  "did_panel X =
     bind_err (column X ''Assignment'') (\<lambda>a1.
     bind_err (select_cols (select_rows X (eq_num a1 1)) [''Start'', ''End'']) (\<lambda>test.
     bind_err (column X ''Assignment'') (\<lambda>a0.
     bind_err (select_cols (select_rows X (eq_num a0 0)) [''Start'', ''End'']) (\<lambda>control.
     bind_err (column test ''Start'') (\<lambda>test_initial.
     bind_err (column test ''End'') (\<lambda>test_final.
     bind_err (column control ''Start'') (\<lambda>control_initial.
     bind_err (column control ''End'') (\<lambda>control_final.
     bind_err (append_df (panel_block test_initial 1 0) (panel_block test_final 1 1)) (\<lambda>df1.
     bind_err (append_df df1 (panel_block control_initial 0 0)) (\<lambda>df2.
     bind_err (append_df df2 (panel_block control_final 0 1)) (\<lambda>df3.
     bind_err (column df3 ''t'') (\<lambda>t.
     bind_err (column df3 ''assignment'') (\<lambda>a.
     bind_err (mul_col t a) (\<lambda>d.
     Inr (set_col (set_col df3 ''did'' d) ''intercept'' (replicate (nrows df3) (Num 1)))))))))))))))))"

text \<open>\<^verbatim>\<open>result.conf_int().ix[k]\<close> and \<^verbatim>\<open>result.params[k]\<close>.\<close>

definition lookup :: "(string \<times> 'a) list \<Rightarrow> string \<Rightarrow> error + 'a" where
  "lookup l k = (case map_of l k of None \<Rightarrow> Inl (KeyError k) | Some v \<Rightarrow> Inr v)"

text \<open>
  \<^verbatim>\<open>average_treatment_effect(self, X, start='Start', end='End', assignment='Assignment')\<close>,
  lines 24 to 57.
\<close>

definition average_treatment_effect ::
    "did \<Rightarrow> dataframe \<Rightarrow> string \<Rightarrow> string \<Rightarrow> string \<Rightarrow> error + (pyfloat \<times> pyfloat \<times> pyfloat)" where
  "average_treatment_effect self X start end' assignment =
     bind_err (did_panel X) (\<lambda>df.
     bind_err (column df ''y'') (\<lambda>y.
     bind_err (select_cols df [''t'', ''assignment'', ''did'', ''intercept'']) (\<lambda>exog.
     bind_err (model self y exog) (\<lambda>result.
     bind_err (lookup (conf_int result) ''did'') (\<lambda>ci.
     bind_err (lookup (params result) ''did'') (\<lambda>expected.
     Inr (fst ci, expected, snd ci)))))))"

text \<open>
  \<^verbatim>\<open>test_parallel_trend\<close>, lines 59 to 75. It forwards the three column names;
  a comparison with \<open>NaN\<close> is false.
\<close>

fun le_zero :: "pyfloat \<Rightarrow> bool" where
  "le_zero NaN = False"
| "le_zero (Fin x) = (x \<le> 0)"

fun zero_le :: "pyfloat \<Rightarrow> bool" where
  "zero_le NaN = False"
| "zero_le (Fin x) = (0 \<le> x)"

definition test_parallel_trend ::
    "did \<Rightarrow> dataframe \<Rightarrow> string \<Rightarrow> string \<Rightarrow> string \<Rightarrow> error + bool" where
  "test_parallel_trend self X start end' assignment =
     bind_err (average_treatment_effect self X start end' assignment) (\<lambda>(lower, exp, upper).
     Inr (if le_zero lower \<and> zero_le upper then True else False))"

section \<open>PropensityScoreMatching\<close>

text \<open>
  The library routines the class calls are parameters: \<^verbatim>\<open>pandas.get_dummies\<close>, the
  logistic regression \<^verbatim>\<open>Logit\<close> of statsmodels (fitting, and prediction with the
  fitted model \<open>'m\<close>) and \<^verbatim>\<open>NearestNeighbors\<close> of scikit-learn (building the index
  \<open>'n\<close> for a number of neighbours, and the positions of the neighbours of one score).
\<close>

record ('m, 'n) lib =
  get_dummies :: "dataframe \<Rightarrow> string \<Rightarrow> dataframe"
  logit_fit :: "val list \<Rightarrow> dataframe \<Rightarrow> error + 'm"
  predict :: "'m \<Rightarrow> dataframe \<Rightarrow> error + real list"
  nn_fit :: "nat \<Rightarrow> val list \<Rightarrow> error + 'n"
  kneighbors :: "'n \<Rightarrow> val \<Rightarrow> error + nat list"

text \<open>
  Tables are objects: \<^verbatim>\<open>score\<close> writes into the table it is given. The store maps
  references to tables; \<open>next_ref\<close> is the next unused reference, taken by
  \<^verbatim>\<open>X.copy()\<close>. The attribute \<^verbatim>\<open>propensity_score_model\<close> of the object is part of
  the state.
\<close>

record 'm state =
  heap :: "nat \<Rightarrow> dataframe"
  next_ref :: nat
  propensity_score_model :: "'m option"

text \<open>\<^verbatim>\<open>__init__\<close>, lines 79 to 81.\<close>

definition PropensityScoreMatching_init :: "'m state \<Rightarrow> 'm state" where
  "PropensityScoreMatching_init s = s\<lparr>propensity_score_model := None\<rparr>"

text \<open>\<^verbatim>\<open>df[cs] = other[cs]\<close> for the columns of \<open>other\<close>, one after the other.\<close>

fun set_cols :: "dataframe \<Rightarrow> (string \<times> val list) list \<Rightarrow> dataframe" where
  "set_cols df [] = df"
| "set_cols df (cv # rest) = set_cols (set_col df (fst cv) (snd cv)) rest"

text \<open>
  The loop of \<^verbatim>\<open>score\<close>, lines 101 to 113, over the items of the dictionary
  \<^verbatim>\<open>confounder_types\<close> in their order; it carries the design frame \<open>df\<close> and the list
  \<^verbatim>\<open>regression_confounders\<close>.
\<close>

fun score_loop ::
    "('m, 'n) lib \<Rightarrow> dataframe \<Rightarrow> (string \<times> string) list \<Rightarrow> dataframe \<Rightarrow> string list
      \<Rightarrow> error + dataframe \<times> string list" where
  "score_loop L X [] df regression_confounders = Inr (df, regression_confounders)"
| "score_loop L X (item # items) df regression_confounders =
     (if snd item = ''o'' \<or> snd item = ''u'' then
        bind_err (select_cols X [fst item]) (\<lambda>Xc.
          let c_dummies = cols (get_dummies L Xc (fst item)) in
          if length c_dummies = 1 then
            score_loop L X items (set_cols df c_dummies) (regression_confounders @ map fst c_dummies)
          else
            score_loop L X items (set_cols df (tl c_dummies)) (regression_confounders @ map fst (tl c_dummies)))
      else
        bind_err (column X (fst item)) (\<lambda>vs.
          score_loop L X items (set_col df (fst item) vs) (regression_confounders @ [fst item])))"

text \<open>
  Lines 99 to 118 of \<^verbatim>\<open>score\<close>: the design frame, the optional intercept and the
  fit. The result is the fitted model and the frame of the regressors.
\<close>

definition score_fit ::
    "('m, 'n) lib \<Rightarrow> dataframe \<Rightarrow> (string \<times> string) list \<Rightarrow> string \<Rightarrow> bool \<Rightarrow> error + 'm \<times> dataframe" where
  "score_fit L X confounder_types assignment intercept =
     bind_err (select_cols X [assignment]) (\<lambda>df0.
     bind_err (score_loop L X confounder_types df0 []) (\<lambda>(df1, rc1).
     let df = (if intercept then set_col df1 ''intercept'' (replicate (nrows df1) (Num 1)) else df1);
         regression_confounders = (if intercept then rc1 @ [''intercept''] else rc1)
     in
     bind_err (column df assignment) (\<lambda>endog.
     bind_err (select_cols df regression_confounders) (\<lambda>exog.
     bind_err (logit_fit L endog exog) (\<lambda>fitted.
     Inr (fitted, exog))))))"

text \<open>
  \<^verbatim>\<open>score(self, X, confounder_types, assignment='assignment', store_model_fit=False, intercept=True)\<close>,
  lines 84 to 122. \<open>X\<close> is the reference of the caller's table. Line 120 writes the
  attribute, line 121 writes the column \<^verbatim>\<open>propensity score\<close> into the table \<open>X\<close>
  refers to (a list of another length than the table is a \<^verbatim>\<open>ValueError\<close>), and line
  122 returns the same reference.
\<close>

definition score ::
    "('m, 'n) lib \<Rightarrow> nat \<Rightarrow> (string \<times> string) list \<Rightarrow> string \<Rightarrow> bool \<Rightarrow> bool \<Rightarrow> 'm state
      \<Rightarrow> (error + nat) \<times> 'm state" where
  "score L X confounder_types assignment store_model_fit intercept s =
     (case score_fit L (heap s X) confounder_types assignment intercept of
        Inl e \<Rightarrow> (Inl e, s)
      | Inr (fitted, exog) \<Rightarrow>
          let s1 = (if store_model_fit then s\<lparr>propensity_score_model := Some fitted\<rparr> else s) in
          (case predict L fitted exog of
             Inl e \<Rightarrow> (Inl e, s1)
           | Inr p \<Rightarrow>
               if length p \<noteq> nrows (heap s1 X) then (Inl ValueError, s1)
               else (Inr X,
                     s1\<lparr>heap := (heap s1)(X := set_col (heap s1 X) ''propensity score'' (map Num p))\<rparr>)))"

text \<open>Applying a function that may raise to the cells of a column, in order.\<close>

fun map_err :: "('a \<Rightarrow> error + 'b) \<Rightarrow> 'a list \<Rightarrow> error + 'b list" where
  "map_err f [] = Inr []"
| "map_err f (x # xs) = bind_err (f x) (\<lambda>y. bind_err (map_err f xs) (\<lambda>ys. Inr (y # ys)))"

text \<open>
  \<^verbatim>\<open>match(self, X, assignment='assignment', score='propensity score', n_neighbors=2)\<close>,
  lines 124 to 143. The two row selections are new tables, so the table of the caller is
  read only and the function is modelled on the table's value. A cell of the column
  \<^verbatim>\<open>matches\<close> holds the positions returned for that row.
\<close>

definition match ::
    "('m, 'n) lib \<Rightarrow> dataframe \<Rightarrow> string \<Rightarrow> string \<Rightarrow> nat \<Rightarrow> error + dataframe \<times> dataframe" where
  "match L X assignment score_col n_neighbors =
     bind_err (column X assignment) (\<lambda>a1.
     let treatments = select_rows X (eq_num a1 1) in
     bind_err (column X assignment) (\<lambda>a0.
     let control = select_rows X (eq_num a0 0) in
     bind_err (column control score_col) (\<lambda>control_scores.
     bind_err (nn_fit L n_neighbors control_scores) (\<lambda>neighbor_search.
     bind_err (column treatments score_col) (\<lambda>treated_scores.
     bind_err (map_err (kneighbors L neighbor_search) treated_scores) (\<lambda>ms.
     Inr (set_col treatments ''matches'' (map Matches ms), control)))))))"

text \<open>
  \<^verbatim>\<open>estimate_treatments(self, treatments, control, outcome)\<close>, lines 145 to 162.
  \<^verbatim>\<open>get_matched_outcome\<close> reads \<^verbatim>\<open>control[outcome].values[i]\<close> for each position
  of the cell and divides it by the number of positions, then sums; the sum of no terms
  is 0. The division is never by zero, since it is evaluated once per position.
\<close>

fun div_val :: "val \<Rightarrow> nat \<Rightarrow> error + real" where
  "div_val (Num v) k = Inr (v / real k)"
| "div_val _ k = Inl TypeError"

definition values_at :: "dataframe \<Rightarrow> string \<Rightarrow> nat \<Rightarrow> error + val" where
  "values_at control outcome i =
     bind_err (column control outcome) (\<lambda>ys. if i < length ys then Inr (ys ! i) else Inl IndexError)"

fun get_matched_outcome :: "dataframe \<Rightarrow> string \<Rightarrow> val \<Rightarrow> error + val" where
  "get_matched_outcome control outcome (Matches m) =
     bind_err (map_err (\<lambda>i. bind_err (values_at control outcome i) (\<lambda>v. div_val v (length m))) m)
       (\<lambda>qs. Inr (Num (sum_list qs)))"
| "get_matched_outcome control outcome _ = Inl TypeError"

definition estimate_treatments :: "dataframe \<Rightarrow> dataframe \<Rightarrow> string \<Rightarrow> error + dataframe" where
  "estimate_treatments treatments control outcome =
     bind_err (column treatments ''matches'') (\<lambda>ms.
     bind_err (map_err (get_matched_outcome control outcome) ms) (\<lambda>co.
     Inr (set_col treatments ''control outcome'' co)))"

text \<open>\<^verbatim>\<open>Series.mean()\<close>: the mean of a numeric column, \<open>NaN\<close> when it has no cell.\<close>

fun num_of :: "val \<Rightarrow> error + real" where
  "num_of (Num v) = Inr v"
| "num_of _ = Inl TypeError"

definition mean :: "val list \<Rightarrow> error + pyfloat" where
  "mean vs =
     bind_err (map_err num_of vs) (\<lambda>xs.
     Inr (if xs = [] then NaN else Fin (sum_list xs / real (length xs))))"

text \<open>Float arithmetic: \<open>NaN\<close> is absorbing.\<close>

fun fsub :: "pyfloat \<Rightarrow> pyfloat \<Rightarrow> pyfloat" where
  "fsub (Fin a) (Fin b) = Fin (a - b)"
| "fsub _ _ = NaN"

fun fadd :: "pyfloat \<Rightarrow> pyfloat \<Rightarrow> pyfloat" where
  "fadd (Fin a) (Fin b) = Fin (a + b)"
| "fadd _ _ = NaN"

fun fmul :: "pyfloat \<Rightarrow> pyfloat \<Rightarrow> pyfloat" where
  "fmul (Fin a) (Fin b) = Fin (a * b)"
| "fmul _ _ = NaN"

fun fneg :: "pyfloat \<Rightarrow> pyfloat" where
  "fneg (Fin a) = Fin (- a)"
| "fneg NaN = NaN"

text \<open>
  Lines 178 to 182 of \<^verbatim>\<open>estimate_ATT\<close>, on the scored table: match, estimate the
  treatments, and subtract the two means.
\<close>

definition att_of_scored ::
    "('m, 'n) lib \<Rightarrow> dataframe \<Rightarrow> string \<Rightarrow> string \<Rightarrow> nat \<Rightarrow> error + pyfloat" where
  "att_of_scored L X assignment outcome n_neighbors =
     bind_err (match L X assignment ''propensity score'' n_neighbors) (\<lambda>(treatments0, control).
     bind_err (estimate_treatments treatments0 control outcome) (\<lambda>treatments.
     bind_err (bind_err (column treatments outcome) mean) (\<lambda>y_hat_treated.
     bind_err (bind_err (column treatments ''control outcome'') mean) (\<lambda>y_hat_control.
     Inr (fsub y_hat_treated y_hat_control)))))"

text \<open>
  \<^verbatim>\<open>estimate_ATT(self, X, assignment, outcome, confounder_types, n_neighbors=5)\<close>,
  lines 164 to 182. Line 177 calls \<^verbatim>\<open>score\<close> with \<^verbatim>\<open>store_model_fit\<close> and
  \<^verbatim>\<open>intercept\<close> at their defaults.
\<close>

definition estimate_ATT ::
    "('m, 'n) lib \<Rightarrow> nat \<Rightarrow> string \<Rightarrow> string \<Rightarrow> (string \<times> string) list \<Rightarrow> nat \<Rightarrow> 'm state
      \<Rightarrow> (error + pyfloat) \<times> 'm state" where
  "estimate_ATT L X assignment outcome confounder_types n_neighbors s =
     (case score L X confounder_types assignment False True s of
        (Inl e, s1) \<Rightarrow> (Inl e, s1)
      | (Inr X', s1) \<Rightarrow> (att_of_scored L (heap s1 X') assignment outcome n_neighbors, s1))"

text \<open>\<^verbatim>\<open>(df[assignment] + 1) % 2\<close>, with Python's float remainder.\<close>

definition pymod :: "real \<Rightarrow> real \<Rightarrow> real" where
  "pymod x y = x - y * of_int \<lfloor>x / y\<rfloor>"

fun flip_val :: "val \<Rightarrow> error + val" where
  "flip_val (Num v) = Inr (Num (pymod (v + 1) 2))"
| "flip_val _ = Inl TypeError"

text \<open>
  \<^verbatim>\<open>estimate_ATC\<close>, lines 184 to 199: the copy is a new table in the store, its
  assignment column is flipped, and the estimate on the copy is negated.
\<close>

definition estimate_ATC ::
    "('m, 'n) lib \<Rightarrow> nat \<Rightarrow> string \<Rightarrow> string \<Rightarrow> (string \<times> string) list \<Rightarrow> nat \<Rightarrow> 'm state
      \<Rightarrow> (error + pyfloat) \<times> 'm state" where
  "estimate_ATC L X assignment outcome confounder_types n_neighbors s =
     (let df = next_ref s;
          s1 = s\<lparr>heap := (heap s)(df := heap s X), next_ref := Suc (next_ref s)\<rparr>
      in
      case bind_err (column (heap s1 df) assignment) (map_err flip_val) of
        Inl e \<Rightarrow> (Inl e, s1)
      | Inr flipped \<Rightarrow>
          let s2 = s1\<lparr>heap := (heap s1)(df := set_col (heap s1 df) assignment flipped)\<rparr> in
          (case estimate_ATT L df assignment outcome confounder_types n_neighbors s2 of
             (Inl e, s3) \<Rightarrow> (Inl e, s3)
           | (Inr att, s3) \<Rightarrow> (Inr (fneg att), s3)))"

text \<open>
  \<^verbatim>\<open>estimate_ATE\<close>, lines 201 to 218. Both estimates are made on the same reference
  \<open>X\<close>, the second after the first has scored the table. Dividing by the float of a
  zero row count raises \<^verbatim>\<open>ZeroDivisionError\<close>.
\<close>

definition p_assignment_of :: "dataframe \<Rightarrow> string \<Rightarrow> error + real" where
  "p_assignment_of X assignment =
     bind_err (column X assignment) (\<lambda>a.
     if nrows X = 0 then Inl ZeroDivisionError
     else Inr (real (nrows (select_rows X (eq_num a 1))) / real (nrows X)))"

definition estimate_ATE ::
    "('m, 'n) lib \<Rightarrow> nat \<Rightarrow> string \<Rightarrow> string \<Rightarrow> (string \<times> string) list \<Rightarrow> nat \<Rightarrow> 'm state
      \<Rightarrow> (error + pyfloat) \<times> 'm state" where
  "estimate_ATE L X assignment outcome confounder_types n_neighbors s =
     (case estimate_ATT L X assignment outcome confounder_types n_neighbors s of
        (Inl e, s1) \<Rightarrow> (Inl e, s1)
      | (Inr att, s1) \<Rightarrow>
          (case estimate_ATC L X assignment outcome confounder_types n_neighbors s1 of
             (Inl e, s2) \<Rightarrow> (Inl e, s2)
           | (Inr atc, s2) \<Rightarrow>
               (bind_err (p_assignment_of (heap s2 X) assignment) (\<lambda>p_assignment.
                  Inr (fadd (fmul (Fin p_assignment) att) (fmul (Fin (1 - p_assignment)) atc))), s2)))"

text \<open>
  \<^verbatim>\<open>DataFrame.mean()[x]\<close>: the mean of the column \<open>x\<close>; a column that is missing or
  not numeric is not in the result of \<^verbatim>\<open>mean()\<close>, a \<^verbatim>\<open>KeyError\<close>.
\<close>

definition mean_at :: "dataframe \<Rightarrow> string \<Rightarrow> error + pyfloat" where
  "mean_at X x =
     bind_err (column X x) (\<lambda>vs.
     case mean vs of Inl e \<Rightarrow> Inl (KeyError x) | Inr m \<Rightarrow> Inr m)"

text \<open>
  \<^verbatim>\<open>calculate_balance(self, X, x, d)\<close>, lines 223 to 226. The module imports pandas
  as \<^verbatim>\<open>pd\<close> and four library classes; the name \<^verbatim>\<open>np\<close> of line 225 is bound
  nowhere, and Python looks it up before it evaluates the argument of \<^verbatim>\<open>np.sqrt\<close>.
\<close>

definition calculate_balance :: "dataframe \<Rightarrow> string \<Rightarrow> string \<Rightarrow> error + pyfloat" where
  "calculate_balance X x d =
     bind_err (column X d) (\<lambda>d1.
     bind_err (mean_at (select_rows X (eq_num d1 1)) x) (\<lambda>m1.
     bind_err (column X d) (\<lambda>d0.
     bind_err (mean_at (select_rows X (eq_num d0 0)) x) (\<lambda>m0.
     let numerator = fsub m1 m0 in
     Inl (NameError ''np'')))))"

section \<open>Observations used to state the properties\<close>

text \<open>The number of cells of a column that equal the number \<open>x\<close>: \<^verbatim>\<open>len(X[X[c] == x])\<close>.\<close>

definition count_num :: "val list \<Rightarrow> real \<Rightarrow> nat" where
  "count_num vs x = length (filter id (eq_num vs x))"

text \<open>Whether a table has a column of a given name.\<close>

definition has_column :: "dataframe \<Rightarrow> string \<Rightarrow> bool" where
  "has_column X c = (c \<in> set (map fst (cols X)))"

text \<open>The row count of the panel built from a table, and the number of its rows with \<^verbatim>\<open>did\<close> = 1.\<close>

definition panel_counts :: "dataframe \<Rightarrow> error + nat \<times> nat" where
  "panel_counts X =
     bind_err (did_panel X) (\<lambda>df.
     bind_err (column df ''did'') (\<lambda>d. Inr (nrows df, count_num d 1)))"

text \<open>The specification's sentence "exactly one quarter of rows have \<^verbatim>\<open>did\<close> = 1".\<close>

definition quarter_did :: "dataframe \<Rightarrow> bool" where
  "quarter_did X = (case panel_counts X of Inl e \<Rightarrow> False | Inr (n, k) \<Rightarrow> 4 * k = n)"



text \<open>
  The specification's words for \<^verbatim>\<open>estimate_ATT\<close>: the mean of a list of numbers
  (\<open>NaN\<close> for no number), the control outcome of a treated row as the unweighted mean of
  the outcomes of its matched control rows, and the estimate as the mean outcome of the
  treated rows minus their mean control outcome.
\<close>

definition mean_real :: "real list \<Rightarrow> pyfloat" where
  "mean_real xs = (if xs = [] then NaN else Fin (sum_list xs / real (length xs)))"

definition spec_control_outcome :: "real list \<Rightarrow> nat list \<Rightarrow> real" where
  "spec_control_outcome yc m = sum_list (map (\<lambda>i. yc ! i) m) / real (length m)"

definition spec_ATT :: "real list \<Rightarrow> real list \<Rightarrow> nat list list \<Rightarrow> pyfloat" where
  "spec_ATT yt yc ms = fsub (mean_real yt) (mean_real (map (spec_control_outcome yc) ms))"

text \<open>The specification's combination for \<^verbatim>\<open>estimate_ATE\<close>: \<open>p * ATT + (1 - p) * ATC\<close>.\<close>

definition spec_ATE :: "real \<Rightarrow> pyfloat \<Rightarrow> pyfloat \<Rightarrow> pyfloat" where
  "spec_ATE p att atc = fadd (fmul (Fin p) att) (fmul (Fin (1 - p)) atc)"

text \<open>
  The results of \<^verbatim>\<open>score\<close>, \<^verbatim>\<open>estimate_ATT\<close> and \<^verbatim>\<open>estimate_ATC\<close> written as
  functions of the value of the table alone. They are not a second model: the lemmas
  \<open>score_as_table\<close>, \<open>estimate_ATT_value\<close> and \<open>estimate_ATC_value\<close> below prove that
  the definitions above compute them.
\<close>

definition score_table ::
    "('m, 'n) lib \<Rightarrow> dataframe \<Rightarrow> (string \<times> string) list \<Rightarrow> string \<Rightarrow> error + dataframe" where
  "score_table L D confounder_types assignment =
     bind_err (score_fit L D confounder_types assignment True) (\<lambda>fe.
     bind_err (predict L (fst fe) (snd fe)) (\<lambda>p.
     if length p \<noteq> nrows D then Inl ValueError
     else Inr (set_col D ''propensity score'' (map Num p))))"

definition att_value ::
    "('m, 'n) lib \<Rightarrow> dataframe \<Rightarrow> string \<Rightarrow> string \<Rightarrow> (string \<times> string) list \<Rightarrow> nat \<Rightarrow> error + pyfloat" where
  "att_value L D assignment outcome confounder_types n_neighbors =
     bind_err (score_table L D confounder_types assignment) (\<lambda>D'.
     att_of_scored L D' assignment outcome n_neighbors)"

definition atc_value ::
    "('m, 'n) lib \<Rightarrow> dataframe \<Rightarrow> string \<Rightarrow> string \<Rightarrow> (string \<times> string) list \<Rightarrow> nat \<Rightarrow> error + pyfloat" where
  "atc_value L D assignment outcome confounder_types n_neighbors =
     bind_err (bind_err (column D assignment) (map_err flip_val)) (\<lambda>flipped.
     bind_err (att_value L (set_col D assignment flipped) assignment outcome confounder_types n_neighbors) (\<lambda>v.
     Inr (fneg v)))"

section \<open>Example inputs\<close>

text \<open>
  Stand-ins for the library routines, for evaluating the code on concrete tables. The
  two regressions of \<^verbatim>\<open>DifferenceInDifferences\<close>: one that always fails to converge,
  one that reports the estimate 0 with the interval from 0 to 0 whatever the data.
\<close>

definition fit_fail :: regression where
  "fit_fail y exog = Inl EstimationError"

definition fit_stub :: regression where
  "fit_stub y exog = Inr \<lparr>conf_int = [(''did'', Fin 0, Fin 0)], params = [(''did'', Fin 0)]\<rparr>"

text \<open>
  The routines of \<^verbatim>\<open>PropensityScoreMatching\<close>: \<^verbatim>\<open>get_dummies\<close> leaves a numeric
  column as it is (as pandas does); the logistic fit always converges; the predicted
  score of a row is the square of its first regressor (not a logistic fit: it only
  serves to run the code on example tables); the neighbour index refuses an
  empty or non-numeric score column and a request for more neighbours than it holds (a
  \<^verbatim>\<open>ValueError\<close>, as in scikit-learn) and returns the positions of the nearest
  scores, nearest first.
\<close>

definition stub_get_dummies :: "dataframe \<Rightarrow> string \<Rightarrow> dataframe" where
  "stub_get_dummies Xc prefix = Xc"

definition stub_logit_fit :: "val list \<Rightarrow> dataframe \<Rightarrow> error + unit" where
  "stub_logit_fit endog exog = Inr ()"

definition stub_predict :: "unit \<Rightarrow> dataframe \<Rightarrow> error + real list" where
  "stub_predict m exog =
     (case cols exog of
        [] \<Rightarrow> Inl ValueError
      | cv # rest \<Rightarrow> bind_err (map_err num_of (snd cv)) (\<lambda>xs. Inr (map (\<lambda>x. x * x) xs)))"

definition stub_nn_fit :: "nat \<Rightarrow> val list \<Rightarrow> error + nat \<times> real list" where
  "stub_nn_fit k scores =
     bind_err (map_err num_of scores) (\<lambda>xs.
     if xs = [] then Inl ValueError else Inr (k, xs))"

definition stub_kneighbors :: "nat \<times> real list \<Rightarrow> val \<Rightarrow> error + nat list" where
  "stub_kneighbors ns v =
     bind_err (num_of v) (\<lambda>x.
     if length (snd ns) < fst ns then Inl ValueError
     else Inr (take (fst ns) (sort_key (\<lambda>i. \<bar>snd ns ! i - x\<bar>) [0..<length (snd ns)])))"

definition lib0 :: "(unit, nat \<times> real list) lib" where
  "lib0 = \<lparr>get_dummies = stub_get_dummies, logit_fit = stub_logit_fit, predict = stub_predict,
           nn_fit = stub_nn_fit, kneighbors = stub_kneighbors\<rparr>"

text \<open>
  A store in which every reference holds the table \<open>X\<close>, with reference 0 in use and no
  model stored.
\<close>

definition store0 :: "dataframe \<Rightarrow> unit state" where
  "store0 X = \<lparr>heap = (\<lambda>r. X), next_ref = 1, propensity_score_model = None\<rparr>"

text \<open>
  Tables for \<^verbatim>\<open>DifferenceInDifferences\<close>: one treated and three control units; the
  same with renamed columns; tables that lack a column; a table without control units.
\<close>

definition X1 :: dataframe where
  "X1 = \<lparr>nrows = 4,
          cols = [(''Assignment'', [Num 1, Num 0, Num 0, Num 0]),
                  (''Start'', [Num 10, Num 11, Num 12, Num 13]),
                  (''End'', [Num 15, Num 11, Num 12, Num 14])]\<rparr>"

definition X1_renamed :: dataframe where
  "X1_renamed = \<lparr>nrows = 4,
          cols = [(''A'', [Num 1, Num 0, Num 0, Num 0]),
                  (''S'', [Num 10, Num 11, Num 12, Num 13]),
                  (''E'', [Num 15, Num 11, Num 12, Num 14])]\<rparr>"

definition X1_no_assignment :: dataframe where
  "X1_no_assignment = \<lparr>nrows = 1, cols = [(''Start'', [Num 10]), (''End'', [Num 15])]\<rparr>"

definition X1_no_start :: dataframe where
  "X1_no_start = \<lparr>nrows = 1, cols = [(''Assignment'', [Num 1]), (''End'', [Num 15])]\<rparr>"

definition X1_no_end :: dataframe where
  "X1_no_end = \<lparr>nrows = 1, cols = [(''Assignment'', [Num 1]), (''Start'', [Num 10])]\<rparr>"

definition X1_no_control :: dataframe where
  "X1_no_control = \<lparr>nrows = 2,
     cols = [(''Assignment'', [Num 1, Num 1]), (''Start'', [Num 10, Num 11]), (''End'', [Num 15, Num 16])]\<rparr>"

text \<open>
  Tables for \<^verbatim>\<open>PropensityScoreMatching\<close>: \<open>X3\<close> has two treated units and one
  control unit, \<open>X4\<close> has no control unit, and \<open>X5\<close> is a table for the balance.
\<close>

definition X3 :: dataframe where
  "X3 = \<lparr>nrows = 3,
          cols = [(''assignment'', [Num 1, Num 1, Num 0]),
                  (''y'', [Num 10, Num 20, Num 0]),
                  (''x'', [Num (3/10), Num (9/10), Num (7/10)])]\<rparr>"

definition X4 :: dataframe where
  "X4 = \<lparr>nrows = 2,
          cols = [(''assignment'', [Num 1, Num 1]),
                  (''y'', [Num 10, Num 20]),
                  (''propensity score'', [Num (1/5), Num (4/5)])]\<rparr>"

definition X5 :: dataframe where
  "X5 = \<lparr>nrows = 4,
          cols = [(''d'', [Num 1, Num 1, Num 0, Num 0]),
                  (''x'', [Num 1, Num 3, Num 2, Num 6])]\<rparr>"

text \<open>
  A table whose confounder is a column named \<^verbatim>\<open>propensity score\<close>, and the logistic
  regression on it. The fit is the maximum-likelihood fit of the assignment on the one
  regressor and the intercept, which is what \<^verbatim>\<open>Logit(...).fit()\<close> converges to; its
  fitted probabilities are tabulated, rounded to four decimals, for the three regressions
  the estimators run on this table: the assignment on the confounder (coefficients
  \<open>3.8054\<close> and \<open>-8.4631\<close>), the flipped assignment on the confounder, and the flipped
  assignment on the scores of the first fit. On any other data the stand-in does not
  converge. Prediction on the design of the fit returns the fitted probabilities.
\<close>

definition X7 :: dataframe where
  "X7 = \<lparr>nrows = 4,
          cols = [(''assignment'', [Num 0, Num 1, Num 0, Num 1]),
                  (''y'', [Num 15, Num 0, Num 28, Num 26]),
                  (''propensity score'', [Num (73/100), Num (48/100), Num (39/100), Num (24/100)])]\<rparr>"


definition mle_table :: "((val list \<times> val list) \<times> real list) list" where
  "mle_table =
     [(([Num 0, Num 1, Num 0, Num 1], [Num (73/100), Num (48/100), Num (39/100), Num (24/100)]),
       [853/10000, 4361/10000, 6236/10000, 8550/10000]),
      (([Num 1, Num 0, Num 1, Num 0], [Num (73/100), Num (48/100), Num (39/100), Num (24/100)]),
       [9147/10000, 5639/10000, 3764/10000, 1450/10000]),
      (([Num 1, Num 0, Num 1, Num 0], [Num (853/10000), Num (4361/10000), Num (6236/10000), Num (8550/10000)]),
       [8717/10000, 5818/10000, 3734/10000, 1731/10000])]"

definition mle_logit_fit :: "val list \<Rightarrow> dataframe \<Rightarrow> error + real list" where
  "mle_logit_fit endog exog =
     (case cols exog of
        [] \<Rightarrow> Inl EstimationError
      | cv # rest \<Rightarrow>
          (case map_of mle_table (endog, snd cv) of
             None \<Rightarrow> Inl EstimationError
           | Some p \<Rightarrow> Inr p))"

definition mle_predict :: "real list \<Rightarrow> dataframe \<Rightarrow> error + real list" where
  "mle_predict fitted exog = Inr fitted"

definition lib1 :: "(real list, nat \<times> real list) lib" where
  "lib1 = \<lparr>get_dummies = stub_get_dummies, logit_fit = mle_logit_fit, predict = mle_predict,
           nn_fit = stub_nn_fit, kneighbors = stub_kneighbors\<rparr>"

definition store1 :: "dataframe \<Rightarrow> real list state" where
  "store1 X = \<lparr>heap = (\<lambda>r. X), next_ref = 1, propensity_score_model = None\<rparr>"

text \<open>
  Two treated and three control units, the table after scoring with the stand-in model,
  and the two tables that matching with two neighbours makes of it.
\<close>

definition X6 :: dataframe where
  "X6 = \<lparr>nrows = 5,
          cols = [(''assignment'', [Num 1, Num 1, Num 0, Num 0, Num 0]),
                  (''y'', [Num 10, Num 20, Num 1, Num 3, Num 8]),
                  (''x'', [Num (3/10), Num (9/10), Num (1/5), Num (1/2), Num 1])]\<rparr>"

definition X6_scored :: dataframe where
  "X6_scored = set_col X6 ''propensity score''
     [Num (9/100), Num (81/100), Num (1/25), Num (1/4), Num 1]"

definition X6_treatments :: dataframe where
  "X6_treatments = \<lparr>nrows = 2,
          cols = [(''assignment'', [Num 1, Num 1]),
                  (''y'', [Num 10, Num 20]),
                  (''x'', [Num (3/10), Num (9/10)]),
                  (''propensity score'', [Num (9/100), Num (81/100)]),
                  (''matches'', [Matches [0, 1], Matches [2, 1]])]\<rparr>"

definition X6_control :: dataframe where
  "X6_control = \<lparr>nrows = 3,
          cols = [(''assignment'', [Num 0, Num 0, Num 0]),
                  (''y'', [Num 1, Num 3, Num 8]),
                  (''x'', [Num (1/5), Num (1/2), Num 1]),
                  (''propensity score'', [Num (1/25), Num (1/4), Num 1])]\<rparr>"

section \<open>Properties of the data frame operations\<close>

lemma column_simps:
  "column \<lparr>nrows = n, cols = (c, vs) # l\<rparr> c' = (if c = c' then Inr vs else column \<lparr>nrows = n, cols = l\<rparr> c')"
  "column \<lparr>nrows = n, cols = []\<rparr> c' = Inl (KeyError c')"
  by (simp_all add: column_def)

lemma map_of_map_snd:
  "map_of (map (\<lambda>cv. (fst cv, f (snd cv))) l) c = map_option f (map_of l c)"
  by (induction l) auto

lemma column_select_rows:
  "column (select_rows X m) c = bind_err (column X c) (\<lambda>vs. Inr (keep m vs))"
  by (simp add: column_def select_rows_def map_of_map_snd split: option.splits)

lemma mul_col_const:
  "mul_col (map (\<lambda>i. Num a) ys) (map (\<lambda>i. Num b) ys) = Inr (map (\<lambda>i. Num (a * b)) ys)"
  by (induction ys) simp_all

lemma mul_col_append_const:
  "mul_col (map (\<lambda>i. Num a) ys @ ts) (map (\<lambda>i. Num b) ys @ us) =
     bind_err (mul_col ts us) (\<lambda>r. Inr (map (\<lambda>i. Num (a * b)) ys @ r))"
proof (induction ys)
  case Nil
  show ?case by (cases "mul_col ts us") simp_all
next
  case (Cons y ys)
  then show ?case by (cases "mul_col ts us") simp_all
qed

lemma did_panel_explicit:
  assumes "column X ''Assignment'' = Inr a" "column X ''Start'' = Inr st" "column X ''End'' = Inr en"
  shows "did_panel X = Inr
    \<lparr>nrows = length (keep (eq_num a 1) st) + length (keep (eq_num a 1) en)
               + length (keep (eq_num a 0) st) + length (keep (eq_num a 0) en),
     cols = [(''y'', keep (eq_num a 1) st @ keep (eq_num a 1) en @ keep (eq_num a 0) st @ keep (eq_num a 0) en),
             (''assignment'', map (\<lambda>i. Num 1) (keep (eq_num a 1) st) @ map (\<lambda>i. Num 1) (keep (eq_num a 1) en)
                  @ map (\<lambda>i. Num 0) (keep (eq_num a 0) st) @ map (\<lambda>i. Num 0) (keep (eq_num a 0) en)),
             (''t'', map (\<lambda>i. Num 0) (keep (eq_num a 1) st) @ map (\<lambda>i. Num 1) (keep (eq_num a 1) en)
                  @ map (\<lambda>i. Num 0) (keep (eq_num a 0) st) @ map (\<lambda>i. Num 1) (keep (eq_num a 0) en)),
             (''did'', map (\<lambda>i. Num 0) (keep (eq_num a 1) st) @ map (\<lambda>i. Num 1) (keep (eq_num a 1) en)
                  @ map (\<lambda>i. Num 0) (keep (eq_num a 0) st) @ map (\<lambda>i. Num 0) (keep (eq_num a 0) en)),
             (''intercept'', replicate (length (keep (eq_num a 1) st) + length (keep (eq_num a 1) en)
               + length (keep (eq_num a 0) st) + length (keep (eq_num a 0) en)) (Num 1))]\<rparr>"
  using assms
  by (simp add: did_panel_def select_cols_def column_select_rows column_simps append_df_def panel_block_def
      mul_col_const mul_col_append_const set_col_def)

lemma length_keep:
  "length vs = length m \<Longrightarrow> length (keep m vs) = length (filter id m)"
proof (induction vs arbitrary: m)
  case Nil
  then show ?case by (simp add: keep_def)
next
  case (Cons v vs)
  then obtain b bs where "m = b # bs" by (cases m) auto
  with Cons show ?case by (simp add: keep_def)
qed

lemma wf_column_length:
  "wf_df X \<Longrightarrow> column X c = Inr vs \<Longrightarrow> length vs = nrows X"
  by (auto simp: wf_df_def column_def list_all_iff split: option.splits dest!: map_of_SomeD)

lemma count_num_append: "count_num (xs @ ys) x = count_num xs x + count_num ys x"
  by (simp add: count_num_def eq_num_def)

lemma count_num_const: "count_num (map (\<lambda>i. Num a) ys) x = (if a = x then length ys else 0)"
  by (induction ys) (simp_all add: count_num_def eq_num_def)

lemma did_only_test_post:
  "list_all (\<lambda>(d, a, t). (d = Num 1) = (a = Num 1 \<and> t = Num 1))
     (zip (map (\<lambda>i. Num 0) p @ map (\<lambda>i. Num 1) q @ map (\<lambda>i. Num 0) r @ map (\<lambda>i. Num 0) s)
       (zip (map (\<lambda>i. Num 1) p @ map (\<lambda>i. Num 1) q @ map (\<lambda>i. Num 0) r @ map (\<lambda>i. Num 0) s)
            (map (\<lambda>i. Num 0) p @ map (\<lambda>i. Num 1) q @ map (\<lambda>i. Num 0) r @ map (\<lambda>i. Num 1) s)))"
  by (auto simp: zip_map_map list_all_iff)

lemma list_all_zip3_nth:
  assumes "list_all P (zip ds (zip as ts))" "length as = length ds" "length ts = length ds" "i < length ds"
  shows "P (ds ! i, as ! i, ts ! i)"
  using assms by (simp add: list_all_length)

section \<open>The panel of DifferenceInDifferences\<close>

text \<open>
  C3 (as amended). For a table whose three columns \<^verbatim>\<open>Assignment\<close>, \<^verbatim>\<open>Start\<close> and
  \<^verbatim>\<open>End\<close> are present, with \<open>t\<close> rows of assignment 1 and \<open>c\<close> rows of
  assignment 0, the panel is built, it has exactly \<open>2 * (t + c)\<close> rows, exactly \<open>t\<close>
  of them have \<^verbatim>\<open>did\<close> = 1, and a row has \<^verbatim>\<open>did\<close> = 1 exactly when it is a
  test-post row (\<^verbatim>\<open>assignment\<close> = 1 and \<^verbatim>\<open>t\<close> = 1).
\<close>

theorem panel_rows:
  assumes wf: "wf_df X"
    and a: "column X ''Assignment'' = Inr a"
    and st: "column X ''Start'' = Inr st"
    and en: "column X ''End'' = Inr en"
  shows "\<exists>df d asg tt.
           did_panel X = Inr df \<and>
           nrows df = 2 * (count_num a 1 + count_num a 0) \<and>
           column df ''did'' = Inr d \<and> column df ''assignment'' = Inr asg \<and> column df ''t'' = Inr tt \<and>
           length d = nrows df \<and> length asg = nrows df \<and> length tt = nrows df \<and>
           count_num d 1 = count_num a 1 \<and>
           (\<forall>i < nrows df. (d ! i = Num 1) = (asg ! i = Num 1 \<and> tt ! i = Num 1))"
proof -
  have la: "length a = nrows X" and ls: "length st = nrows X" and le: "length en = nrows X"
    using wf a st en by (simp_all add: wf_column_length)
  have k1: "length (keep (eq_num a 1) st) = count_num a 1" "length (keep (eq_num a 1) en) = count_num a 1"
    and k0: "length (keep (eq_num a 0) st) = count_num a 0" "length (keep (eq_num a 0) en) = count_num a 0"
    using la ls le by (simp_all add: length_keep count_num_def eq_num_def)
  let ?p = "keep (eq_num a 1) st" and ?q = "keep (eq_num a 1) en"
  let ?r = "keep (eq_num a 0) st" and ?s = "keep (eq_num a 0) en"
  let ?d = "map (\<lambda>i. Num 0) ?p @ map (\<lambda>i. Num 1) ?q @ map (\<lambda>i. Num 0) ?r @ map (\<lambda>i. Num 0) ?s"
  let ?asg = "map (\<lambda>i. Num 1) ?p @ map (\<lambda>i. Num 1) ?q @ map (\<lambda>i. Num 0) ?r @ map (\<lambda>i. Num 0) ?s"
  let ?tt = "map (\<lambda>i. Num 0) ?p @ map (\<lambda>i. Num 1) ?q @ map (\<lambda>i. Num 0) ?r @ map (\<lambda>i. Num 1) ?s"
  let ?n = "2 * (count_num a 1 + count_num a 0)"
  have len: "length ?d = ?n" "length ?asg = ?n" "length ?tt = ?n"
    by (simp_all add: k1 k0)
  have rows: "\<forall>i < ?n. (?d ! i = Num 1) = (?asg ! i = Num 1 \<and> ?tt ! i = Num 1)"
  proof (intro allI impI)
    fix i assume "i < ?n"
    then have "i < length ?d" using len by simp
    from list_all_zip3_nth [OF did_only_test_post _ _ this]
    show "(?d ! i = Num 1) = (?asg ! i = Num 1 \<and> ?tt ! i = Num 1)"
      by simp
  qed
  have cnt: "count_num ?d 1 = count_num a 1"
    by (simp add: count_num_append count_num_const k1)
  from did_panel_explicit [OF a st en]
  obtain df where df: "did_panel X = Inr df" "nrows df = ?n"
    "column df ''did'' = Inr ?d" "column df ''assignment'' = Inr ?asg" "column df ''t'' = Inr ?tt"
    by (simp add: column_simps k1 k0)
  show ?thesis
    using df len rows cnt by (intro exI [of _ df] exI [of _ ?d] exI [of _ ?asg] exI [of _ ?tt]) simp
qed

text \<open>C3, witness: the table \<open>X1\<close> with one treated and three control rows.\<close>

theorem panel_rows_witness:
  "\<exists>df d asg tt.
           did_panel X1 = Inr df \<and>
           nrows df = 2 * (1 + 3) \<and>
           column df ''did'' = Inr d \<and> column df ''assignment'' = Inr asg \<and> column df ''t'' = Inr tt \<and>
           length d = nrows df \<and> length asg = nrows df \<and> length tt = nrows df \<and>
           count_num d 1 = 1 \<and>
           (\<forall>i < nrows df. (d ! i = Num 1) = (asg ! i = Num 1 \<and> tt ! i = Num 1))"
proof -
  have wf: "wf_df X1" by (simp add: X1_def wf_df_def)
  have a: "column X1 ''Assignment'' = Inr [Num 1, Num 0, Num 0, Num 0]" by (simp add: X1_def column_def)
  have st: "column X1 ''Start'' = Inr [Num 10, Num 11, Num 12, Num 13]" by (simp add: X1_def column_def)
  have en: "column X1 ''End'' = Inr [Num 15, Num 11, Num 12, Num 14]" by (simp add: X1_def column_def)
  show ?thesis
    using panel_rows [OF wf a st en] by (simp add: count_num_def eq_num_def)
qed

text \<open>
  C3, counterexample to "exactly one quarter of the rows have \<^verbatim>\<open>did\<close> = 1": the panel
  of \<open>X1\<close> has eight rows and one of them has \<^verbatim>\<open>did\<close> = 1.
\<close>

theorem quarter_did_counterexample: "\<not> quarter_did X1"
proof -
  have a: "column X1 ''Assignment'' = Inr [Num 1, Num 0, Num 0, Num 0]" by (simp add: X1_def column_def)
  have st: "column X1 ''Start'' = Inr [Num 10, Num 11, Num 12, Num 13]" by (simp add: X1_def column_def)
  have en: "column X1 ''End'' = Inr [Num 15, Num 11, Num 12, Num 14]" by (simp add: X1_def column_def)
  have "panel_counts X1 = Inr (8, 1)"
    by (simp add: panel_counts_def did_panel_explicit [OF a st en] column_simps keep_def eq_num_def count_num_def)
  then show ?thesis by (simp add: quarter_did_def)
qed

section \<open>The stored model\<close>

lemma score_model_unchanged:
  "propensity_score_model (snd (score L X cts a False ic s)) = propensity_score_model s"
  by (simp add: score_def Let_def split: sum.splits prod.splits)

lemma estimate_ATT_model_unchanged:
  "propensity_score_model (snd (estimate_ATT L X a y cts k s)) = propensity_score_model s"
proof -
  have "snd (estimate_ATT L X a y cts k s) = snd (score L X cts a False True s)"
    by (simp add: estimate_ATT_def split: prod.splits sum.splits)
  then show ?thesis by (simp add: score_model_unchanged)
qed

lemma estimate_ATC_model_unchanged:
  "propensity_score_model (snd (estimate_ATC L X a y cts k s)) = propensity_score_model s"
proof -
  let ?s1 = "s\<lparr>heap := (heap s)(next_ref s := heap s X), next_ref := Suc (next_ref s)\<rparr>"
  show ?thesis
  proof (cases "bind_err (column (heap ?s1 (next_ref s)) a) (map_err flip_val)")
    case (Inl e)
    then show ?thesis by (simp add: estimate_ATC_def Let_def)
  next
    case (Inr flipped)
    let ?s2 = "?s1\<lparr>heap := (heap ?s1)(next_ref s := set_col (heap ?s1 (next_ref s)) a flipped)\<rparr>"
    have "snd (estimate_ATC L X a y cts k s) = snd (estimate_ATT L (next_ref s) a y cts k ?s2)"
      using Inr by (simp add: estimate_ATC_def Let_def split: prod.splits sum.splits)
    then show ?thesis
      using estimate_ATT_model_unchanged [of L "next_ref s" a y cts k ?s2] by simp
  qed
qed

lemma estimate_ATE_model_unchanged:
  "propensity_score_model (snd (estimate_ATE L X a y cts k s)) = propensity_score_model s"
proof (cases "estimate_ATT L X a y cts k s")
  case (Pair r1 s1)
  note att = this
  have m1: "propensity_score_model s1 = propensity_score_model s"
    using estimate_ATT_model_unchanged [of L X a y cts k s] att by simp
  show ?thesis
  proof (cases r1)
    case (Inl e)
    then show ?thesis using att m1 by (simp add: estimate_ATE_def)
  next
    case (Inr v)
    obtain r2 s2 where atc: "estimate_ATC L X a y cts k s1 = (r2, s2)" by fastforce
    have m2: "propensity_score_model s2 = propensity_score_model s1"
      using estimate_ATC_model_unchanged [of L X a y cts k s1] atc by simp
    show ?thesis using att Inr atc m1 m2
      by (cases r2) (simp_all add: estimate_ATE_def)
  qed
qed

text \<open>
  C10. A call of \<^verbatim>\<open>score\<close> with \<^verbatim>\<open>store_model_fit\<close> false, and so every call of
  \<^verbatim>\<open>estimate_ATT\<close>, \<^verbatim>\<open>estimate_ATC\<close> and \<^verbatim>\<open>estimate_ATE\<close>, leaves the attribute
  \<^verbatim>\<open>propensity_score_model\<close> as it was; the constructor sets it to \<^verbatim>\<open>None\<close>.
\<close>

theorem default_score_keeps_model:
  "propensity_score_model (snd (score L X cts a False ic s)) = propensity_score_model s \<and>
   propensity_score_model (snd (estimate_ATT L X a y cts k s)) = propensity_score_model s \<and>
   propensity_score_model (snd (estimate_ATC L X a y cts k s)) = propensity_score_model s \<and>
   propensity_score_model (snd (estimate_ATE L X a y cts k s)) = propensity_score_model s \<and>
   propensity_score_model (PropensityScoreMatching_init s) = None"
  by (simp add: score_model_unchanged estimate_ATT_model_unchanged estimate_ATC_model_unchanged
      estimate_ATE_model_unchanged PropensityScoreMatching_init_def)

section \<open>The effect of score on its table\<close>

lemma map_of_set_col_list:
  "map_of (set_col_list l c vs) c' = (if c' = c then Some vs else map_of l c')"
  by (induction l) auto

lemma column_set_col:
  "column (set_col X c vs) c' = (if c' = c then Inr vs else column X c')"
  by (simp add: column_def set_col_def map_of_set_col_list)

lemma nrows_set_col [simp]: "nrows (set_col X c vs) = nrows X"
  by (simp add: set_col_def)

lemma score_X3:
  assumes "t \<noteq> ''o''" "t \<noteq> ''u''"
  shows "score lib0 0 [(''x'', t)] ''assignment'' False True (store0 X3) =
     (Inr 0, (store0 X3)\<lparr>heap := (heap (store0 X3))(0 := set_col X3 ''propensity score''
              [Num (9/100), Num (81/100), Num (49/100)])\<rparr>)"
  using assms
  by (simp add: score_def score_fit_def select_cols_def column_def X3_def store0_def lib0_def
      stub_logit_fit_def stub_predict_def set_col_def power2_eq_square)

text \<open>
  C8 (as amended). \<^verbatim>\<open>score\<close> writes into the table it is given: when it returns, it
  returns the reference it was given and the table has the column
  \<^verbatim>\<open>propensity score\<close> set, one number per row; the row count, every other column of the
  table and every other table are as before. When it raises, the table is unchanged.
\<close>

theorem score_writes_in_place:
  assumes "score L X cts a st ic s = (r, s')"
  shows "(\<forall>Y. Y \<noteq> X \<longrightarrow> heap s' Y = heap s Y) \<and> next_ref s' = next_ref s \<and>
         nrows (heap s' X) = nrows (heap s X) \<and>
         (\<forall>c. c \<noteq> ''propensity score'' \<longrightarrow> column (heap s' X) c = column (heap s X) c) \<and>
         (case r of
            Inl e \<Rightarrow> heap s' X = heap s X
          | Inr X' \<Rightarrow> X' = X \<and>
              (\<exists>p. length p = nrows (heap s X) \<and>
                   heap s' X = set_col (heap s X) ''propensity score'' (map Num p)))"
  using assms
  by (auto simp: score_def Let_def column_set_col split: sum.splits prod.splits if_splits)

text \<open>C8, witness: scoring the table \<open>X3\<close> held at reference 0.\<close>

theorem score_writes_in_place_witness:
  "heap (snd (score lib0 0 [(''x'', ''c'')] ''assignment'' False True (store0 X3))) 1 = X3 \<and>
   next_ref (snd (score lib0 0 [(''x'', ''c'')] ''assignment'' False True (store0 X3))) = 1 \<and>
   nrows (heap (snd (score lib0 0 [(''x'', ''c'')] ''assignment'' False True (store0 X3))) 0) = 3 \<and>
   column (heap (snd (score lib0 0 [(''x'', ''c'')] ''assignment'' False True (store0 X3))) 0) ''y''
     = Inr [Num 10, Num 20, Num 0] \<and>
   (\<exists>p. length p = 3 \<and>
      heap (snd (score lib0 0 [(''x'', ''c'')] ''assignment'' False True (store0 X3))) 0
        = set_col X3 ''propensity score'' (map Num p))"
proof -
  have e: "score lib0 0 [(''x'', ''c'')] ''assignment'' False True (store0 X3) =
     (Inr 0, (store0 X3)\<lparr>heap := (heap (store0 X3))(0 := set_col X3 ''propensity score''
              [Num (9/100), Num (81/100), Num (49/100)])\<rparr>)"
    by (rule score_X3) simp_all
  have y: "column X3 ''y'' = Inr [Num 10, Num 20, Num 0]" "nrows X3 = 3"
    by (simp_all add: X3_def column_def)
  show ?thesis
    unfolding e snd_conv using score_writes_in_place [OF e] y
    by (simp add: store0_def)
qed

text \<open>
  C8, counterexample to "the caller-supplied table is left unchanged": before the call the
  table at reference 0 has no column \<^verbatim>\<open>propensity score\<close>, after the call it has.
\<close>

theorem score_mutates_table_counterexample:
  "column (heap (store0 X3) 0) ''propensity score'' = Inl (KeyError ''propensity score'') \<and>
   column (heap (snd (score lib0 0 [(''x'', ''c'')] ''assignment'' False True (store0 X3))) 0)
     ''propensity score'' = Inr [Num (9/100), Num (81/100), Num (49/100)]"
proof -
  have e: "score lib0 0 [(''x'', ''c'')] ''assignment'' False True (store0 X3) =
     (Inr 0, (store0 X3)\<lparr>heap := (heap (store0 X3))(0 := set_col X3 ''propensity score''
              [Num (9/100), Num (81/100), Num (49/100)])\<rparr>)"
    by (rule score_X3) simp_all
  show ?thesis
    by (simp add: e column_set_col) (simp add: store0_def X3_def column_def)
qed

section \<open>The type tags of score\<close>





section \<open>Matching with an empty control set\<close>

lemma keep_no_flag: "filter id flags = [] \<Longrightarrow> keep flags vs = []"
proof -
  assume "filter id flags = []"
  then have "\<forall>b\<in>set flags. \<not> b" by (simp add: filter_empty_conv)
  then have "filter snd (zip vs flags) = []"
    by (auto simp: filter_empty_conv dest: set_zip_rightD)
  then show ?thesis by (simp add: keep_def)
qed

text \<open>
  C7 (as amended). \<^verbatim>\<open>match\<close> makes no check of the control subset. When no row has
  assignment 0, the score column of the control subset is empty and it is handed to the
  fit of the neighbour index as it is: what \<^verbatim>\<open>match\<close> does is what that fit does on
  the empty column, so an exception it raises there reaches the caller unchanged.
\<close>

theorem match_empty_control:
  assumes a: "column X assignment = Inr av"
    and sc: "column X score_col = Inr sv"
    and empty: "count_num av 0 = 0"
  shows "column (select_rows X (eq_num av 0)) score_col = Inr [] \<and>
         match L X assignment score_col n_neighbors =
           bind_err (nn_fit L n_neighbors []) (\<lambda>neighbor_search.
           bind_err (map_err (kneighbors L neighbor_search) (keep (eq_num av 1) sv)) (\<lambda>ms.
           Inr (set_col (select_rows X (eq_num av 1)) ''matches'' (map Matches ms),
                select_rows X (eq_num av 0))))"
proof -
  have "filter id (eq_num av 0) = []" using empty by (simp add: count_num_def)
  then have k: "keep (eq_num av 0) sv = []" by (rule keep_no_flag)
  show ?thesis
    by (simp add: match_def a sc column_select_rows k Let_def)
qed

text \<open>
  C7, witness: the table \<open>X4\<close> of two treated rows, with an index that refuses the empty
  column by a \<^verbatim>\<open>ValueError\<close>.
\<close>

theorem match_empty_control_witness:
  "column (select_rows X4 (eq_num [Num 1, Num 1] 0)) ''propensity score'' = Inr [] \<and>
   match lib0 X4 ''assignment'' ''propensity score'' 2 = Inl ValueError"
proof -
  have a: "column X4 ''assignment'' = Inr [Num 1, Num 1]"
    and sc: "column X4 ''propensity score'' = Inr [Num (1/5), Num (4/5)]"
    by (simp_all add: X4_def column_def)
  have empty: "count_num [Num 1, Num 1] 0 = 0" by (simp add: count_num_def eq_num_def)
  have f: "nn_fit lib0 2 [] = Inl ValueError" by (simp add: lib0_def stub_nn_fit_def)
  show ?thesis
    using match_empty_control [OF a sc empty, of lib0 2] by (simp add: f)
qed

text \<open>
  C7, counterexample to "raises a \<^verbatim>\<open>DataError\<close> whenever the control subset is
  empty": on \<open>X4\<close> the caller sees the \<^verbatim>\<open>ValueError\<close> of the index.
\<close>

theorem match_empty_control_counterexample:
  "match lib0 X4 ''assignment'' ''propensity score'' 2 = Inl ValueError"
  by (simp add: match_def X4_def column_def select_rows_def eq_num_def keep_def lib0_def stub_nn_fit_def)

section \<open>The balance\<close>

text \<open>\<^verbatim>\<open>calculate_balance\<close> returns for no input: every path ends in an exception.\<close>

lemma calculate_balance_never_returns: "calculate_balance X x d \<noteq> Inr r"
proof -
  have "\<exists>e. calculate_balance X x d = Inl e"
    unfolding calculate_balance_def
    by (cases "column X d"; simp;
        cases "mean_at (select_rows X (eq_num (projr (column X d)) 1)) x"; simp;
        cases "mean_at (select_rows X (eq_num (projr (column X d)) 0)) x"; simp add: Let_def)
  then show ?thesis by auto
qed

text \<open>
  C9. On the table \<open>X5\<close> (group 1 with \<open>x\<close> = 1, 3 and group 0 with \<open>x\<close> = 2, 6) the
  standardised difference of the claim is \<open>(2 - 4) / sqrt ((2 + 8) / 2)\<close>; the code raises
  \<^verbatim>\<open>NameError\<close> for the name \<^verbatim>\<open>np\<close>.
\<close>

theorem calculate_balance_NameError:
  "calculate_balance X5 ''x'' ''d'' = Inl (NameError ''np'')"
  by (simp add: calculate_balance_def X5_def column_def select_rows_def eq_num_def keep_def
      mean_at_def mean_def Let_def)

section \<open>The column names of average_treatment_effect\<close>

text \<open>The three name parameters have no influence on the result.\<close>

lemma average_treatment_effect_ignores_names:
  "average_treatment_effect self X start end' assignment
     = average_treatment_effect self X ''Start'' ''End'' ''Assignment''"
  by (simp add: average_treatment_effect_def)

text \<open>
  C1. The table \<open>X1\<close> with its columns renamed to \<^verbatim>\<open>A\<close>, \<^verbatim>\<open>S\<close>, \<^verbatim>\<open>E\<close> and the new
  names passed: the code still reads the column \<^verbatim>\<open>Assignment\<close> and raises
  \<^verbatim>\<open>KeyError\<close>, whatever the regression.
\<close>

theorem renamed_columns_KeyError:
  "average_treatment_effect self X1_renamed ''S'' ''E'' ''A'' = Inl (KeyError ''Assignment'')"
  by (simp add: average_treatment_effect_def did_panel_def X1_renamed_def column_def)

section \<open>The errors of average_treatment_effect\<close>

lemma has_column_map_of: "has_column X c = (map_of (cols X) c \<noteq> None)"
  by (simp add: has_column_def map_of_eq_None_iff)

lemma has_column_iff: "has_column X c = (\<exists>vs. column X c = Inr vs)"
  by (simp add: has_column_map_of column_def split: option.splits)

lemma no_column: "\<not> has_column X c \<Longrightarrow> column X c = Inl (KeyError c)"
  by (simp add: has_column_map_of column_def split: option.splits)

lemma ate_no_assignment:
  assumes "\<not> has_column X ''Assignment''"
  shows "average_treatment_effect self X start end' assignment = Inl (KeyError ''Assignment'')"
  using assms by (simp add: average_treatment_effect_def did_panel_def no_column)

lemma ate_no_start:
  assumes "has_column X ''Assignment''" "\<not> has_column X ''Start''"
  shows "average_treatment_effect self X start end' assignment = Inl (KeyError ''Start'')"
proof -
  obtain a where a: "column X ''Assignment'' = Inr a"
    using assms(1) by (auto simp: has_column_iff)
  have st: "column X ''Start'' = Inl (KeyError ''Start'')"
    using assms(2) by (rule no_column)
  have "did_panel X = Inl (KeyError ''Start'')"
    by (simp add: did_panel_def select_cols_def column_select_rows a st)
  then show ?thesis by (simp add: average_treatment_effect_def)
qed


lemma ate_no_end:
  assumes "has_column X ''Assignment''" "has_column X ''Start''" "\<not> has_column X ''End''"
  shows "average_treatment_effect self X start end' assignment = Inl (KeyError ''End'')"
proof -
  obtain a where a: "column X ''Assignment'' = Inr a"
    using assms(1) by (auto simp: has_column_iff)
  obtain st where st: "column X ''Start'' = Inr st"
    using assms(2) by (auto simp: has_column_iff)
  have en: "column X ''End'' = Inl (KeyError ''End'')"
    using assms(3) by (rule no_column)
  have "did_panel X = Inl (KeyError ''End'')"
    by (simp add: did_panel_def select_cols_def column_select_rows a st en)
  then show ?thesis by (simp add: average_treatment_effect_def)
qed

lemma ate_all_columns:
  assumes "has_column X ''Assignment''" "has_column X ''Start''" "has_column X ''End''"
  shows "\<exists>df y exog.
         did_panel X = Inr df \<and> column df ''y'' = Inr y \<and>
         select_cols df [''t'', ''assignment'', ''did'', ''intercept''] = Inr exog \<and>
         (\<forall>e. model self y exog = Inl e \<longrightarrow>
            average_treatment_effect self X start end' assignment = Inl e) \<and>
         average_treatment_effect self X start end' assignment =
           bind_err (model self y exog) (\<lambda>result.
           bind_err (lookup (conf_int result) ''did'') (\<lambda>ci.
           bind_err (lookup (params result) ''did'') (\<lambda>expected.
           Inr (fst ci, expected, snd ci))))"
proof -
  obtain a where a: "column X ''Assignment'' = Inr a"
    using assms(1) by (auto simp: has_column_iff)
  obtain st where st: "column X ''Start'' = Inr st"
    using assms(2) by (auto simp: has_column_iff)
  obtain en where en: "column X ''End'' = Inr en"
    using assms(3) by (auto simp: has_column_iff)
  from did_panel_explicit [OF a st en]
  obtain df where df: "did_panel X = Inr df"
    and cs: "map fst (cols df) = [''y'', ''assignment'', ''t'', ''did'', ''intercept'']"
    by simp
  from cs obtain y asg tt d ic where
    c: "cols df = [(''y'', y), (''assignment'', asg), (''t'', tt), (''did'', d), (''intercept'', ic)]"
    by (auto simp: map_eq_Cons_conv)
  have y: "column df ''y'' = Inr y" by (simp add: column_def c)
  have ex: "select_cols df [''t'', ''assignment'', ''did'', ''intercept'']
        = Inr \<lparr>nrows = nrows df, cols = [(''t'', tt), (''assignment'', asg), (''did'', d), (''intercept'', ic)]\<rparr>"
    by (simp add: select_cols_def column_def c)
  have eq: "average_treatment_effect self X start end' assignment =
           bind_err (model self y \<lparr>nrows = nrows df, cols = [(''t'', tt), (''assignment'', asg), (''did'', d), (''intercept'', ic)]\<rparr>) (\<lambda>result.
           bind_err (lookup (conf_int result) ''did'') (\<lambda>ci.
           bind_err (lookup (params result) ''did'') (\<lambda>expected.
           Inr (fst ci, expected, snd ci))))"
    by (simp add: average_treatment_effect_def df y ex)
  show ?thesis
    apply (rule exI [of _ df], rule exI [of _ y], rule exI)
    apply (intro conjI)
        apply (rule df)
       apply (rule y)
      apply (rule ex)
     apply (simp add: eq)
    apply (rule eq)
    done
qed


text \<open>
  C5 (as amended). \<^verbatim>\<open>average_treatment_effect\<close> raises \<^verbatim>\<open>KeyError\<close> when the table
  lacks one of the columns \<^verbatim>\<open>Assignment\<close>, \<^verbatim>\<open>Start\<close>, \<^verbatim>\<open>End\<close> (the name carried
  is the first one missing). When the three columns are there it makes no check of the
  partitions: the panel is built and handed to the regression whatever their sizes, the
  result is read off what the regression returns, and an exception of the regression
  reaches the caller unchanged.
\<close>

theorem ate_error_behaviour:
  "(\<not> has_column X ''Assignment'' \<longrightarrow>
      average_treatment_effect self X start end' assignment = Inl (KeyError ''Assignment'')) \<and>
   (has_column X ''Assignment'' \<and> \<not> has_column X ''Start'' \<longrightarrow>
      average_treatment_effect self X start end' assignment = Inl (KeyError ''Start'')) \<and>
   (has_column X ''Assignment'' \<and> has_column X ''Start'' \<and> \<not> has_column X ''End'' \<longrightarrow>
      average_treatment_effect self X start end' assignment = Inl (KeyError ''End'')) \<and>
   (has_column X ''Assignment'' \<and> has_column X ''Start'' \<and> has_column X ''End'' \<longrightarrow>
      (\<exists>df y exog.
         did_panel X = Inr df \<and> column df ''y'' = Inr y \<and>
         select_cols df [''t'', ''assignment'', ''did'', ''intercept''] = Inr exog \<and>
         (\<forall>e. model self y exog = Inl e \<longrightarrow>
            average_treatment_effect self X start end' assignment = Inl e) \<and>
         average_treatment_effect self X start end' assignment =
           bind_err (model self y exog) (\<lambda>result.
           bind_err (lookup (conf_int result) ''did'') (\<lambda>ci.
           bind_err (lookup (params result) ''did'') (\<lambda>expected.
           Inr (fst ci, expected, snd ci))))))"
proof (intro conjI impI)
  assume "\<not> has_column X ''Assignment''"
  then show "average_treatment_effect self X start end' assignment = Inl (KeyError ''Assignment'')"
    by (rule ate_no_assignment)
next
  assume "has_column X ''Assignment'' \<and> \<not> has_column X ''Start''"
  then show "average_treatment_effect self X start end' assignment = Inl (KeyError ''Start'')"
    using ate_no_start by blast
next
  assume "has_column X ''Assignment'' \<and> has_column X ''Start'' \<and> \<not> has_column X ''End''"
  then show "average_treatment_effect self X start end' assignment = Inl (KeyError ''End'')"
    using ate_no_end by blast
next
  assume h: "has_column X ''Assignment'' \<and> has_column X ''Start'' \<and> has_column X ''End''"
  show "\<exists>df y exog.
         did_panel X = Inr df \<and> column df ''y'' = Inr y \<and>
         select_cols df [''t'', ''assignment'', ''did'', ''intercept''] = Inr exog \<and>
         (\<forall>e. model self y exog = Inl e \<longrightarrow>
            average_treatment_effect self X start end' assignment = Inl e) \<and>
         average_treatment_effect self X start end' assignment =
           bind_err (model self y exog) (\<lambda>result.
           bind_err (lookup (conf_int result) ''did'') (\<lambda>ci.
           bind_err (lookup (params result) ''did'') (\<lambda>expected.
           Inr (fst ci, expected, snd ci))))"
    by (rule ate_all_columns) (simp_all add: h)
qed

lemma has_column_examples:
  "\<not> has_column X1_no_assignment ''Assignment''"
  "has_column X1_no_start ''Assignment'' \<and> \<not> has_column X1_no_start ''Start''"
  "has_column X1_no_end ''Assignment'' \<and> has_column X1_no_end ''Start'' \<and> \<not> has_column X1_no_end ''End''"
  "has_column X1 ''Assignment'' \<and> has_column X1 ''Start'' \<and> has_column X1 ''End''"
  "has_column X1_no_control ''Assignment'' \<and> has_column X1_no_control ''Start'' \<and> has_column X1_no_control ''End''"
  by (simp_all add: has_column_def X1_no_assignment_def X1_no_start_def X1_no_end_def X1_def X1_no_control_def)

text \<open>
  C5, witness: a table for each missing column; the table \<open>X1\<close> with a regression that
  fails; and a table without control rows with a regression that succeeds.
\<close>

theorem ate_error_behaviour_witness:
  "average_treatment_effect (DifferenceInDifferences_init fit_fail fit_stub True) X1_no_assignment
       ''Start'' ''End'' ''Assignment'' = Inl (KeyError ''Assignment'') \<and>
   average_treatment_effect (DifferenceInDifferences_init fit_fail fit_stub True) X1_no_start
       ''Start'' ''End'' ''Assignment'' = Inl (KeyError ''Start'') \<and>
   average_treatment_effect (DifferenceInDifferences_init fit_fail fit_stub True) X1_no_end
       ''Start'' ''End'' ''Assignment'' = Inl (KeyError ''End'') \<and>
   average_treatment_effect (DifferenceInDifferences_init fit_fail fit_stub True) X1
       ''Start'' ''End'' ''Assignment'' = Inl EstimationError \<and>
   average_treatment_effect (DifferenceInDifferences_init fit_fail fit_stub False) X1_no_control
       ''Start'' ''End'' ''Assignment'' = Inr (Fin 0, Fin 0, Fin 0)"
proof -
  let ?robust = "DifferenceInDifferences_init fit_fail fit_stub True"
  let ?plain = "DifferenceInDifferences_init fit_fail fit_stub False"
  have m: "model ?robust = fit_fail" "model ?plain = fit_stub"
    by (simp_all add: DifferenceInDifferences_init_def)
  note T1 = ate_error_behaviour [of X1_no_assignment ?robust "''Start''" "''End''" "''Assignment''"]
  note T2 = ate_error_behaviour [of X1_no_start ?robust "''Start''" "''End''" "''Assignment''"]
  note T3 = ate_error_behaviour [of X1_no_end ?robust "''Start''" "''End''" "''Assignment''"]
  note T4 = ate_error_behaviour [of X1 ?robust "''Start''" "''End''" "''Assignment''"]
  note T5 = ate_error_behaviour [of X1_no_control ?plain "''Start''" "''End''" "''Assignment''"]
  have 1: "average_treatment_effect ?robust X1_no_assignment ''Start'' ''End'' ''Assignment''
             = Inl (KeyError ''Assignment'')"
    using T1 [THEN conjunct1] has_column_examples(1) by (rule mp)
  have 2: "average_treatment_effect ?robust X1_no_start ''Start'' ''End'' ''Assignment''
             = Inl (KeyError ''Start'')"
    using T2 [THEN conjunct2, THEN conjunct1] has_column_examples(2) by (rule mp)
  have 3: "average_treatment_effect ?robust X1_no_end ''Start'' ''End'' ''Assignment''
             = Inl (KeyError ''End'')"
    using T3 [THEN conjunct2, THEN conjunct2, THEN conjunct1] has_column_examples(3) by (rule mp)
  have 4: "average_treatment_effect ?robust X1 ''Start'' ''End'' ''Assignment'' = Inl EstimationError"
  proof -
    from mp [OF T4 [THEN conjunct2, THEN conjunct2, THEN conjunct2] has_column_examples(4)]
    obtain df :: dataframe and y exog where
      "average_treatment_effect ?robust X1 ''Start'' ''End'' ''Assignment'' =
           bind_err (model ?robust y exog) (\<lambda>result.
           bind_err (lookup (conf_int result) ''did'') (\<lambda>ci.
           bind_err (lookup (params result) ''did'') (\<lambda>expected.
           Inr (fst ci, expected, snd ci))))"
      by (elim exE conjE)
    then show ?thesis by (simp add: m fit_fail_def)
  qed
  have 5: "average_treatment_effect ?plain X1_no_control ''Start'' ''End'' ''Assignment''
             = Inr (Fin 0, Fin 0, Fin 0)"
  proof -
    from mp [OF T5 [THEN conjunct2, THEN conjunct2, THEN conjunct2] has_column_examples(5)]
    obtain df :: dataframe and y exog where
      "average_treatment_effect ?plain X1_no_control ''Start'' ''End'' ''Assignment'' =
           bind_err (model ?plain y exog) (\<lambda>result.
           bind_err (lookup (conf_int result) ''did'') (\<lambda>ci.
           bind_err (lookup (params result) ''did'') (\<lambda>expected.
           Inr (fst ci, expected, snd ci))))"
      by (elim exE conjE)
    then show ?thesis by (simp add: m fit_stub_def lookup_def)
  qed
  show ?thesis using 1 2 3 4 5 by (intro conjI)
qed

text \<open>
  C5, counterexample to "raises a \<^verbatim>\<open>DataError\<close> whenever the table lacks a required
  column": without the column \<^verbatim>\<open>End\<close> the exception is a \<^verbatim>\<open>KeyError\<close>.
\<close>

theorem ate_missing_column_counterexample:
  "average_treatment_effect (DifferenceInDifferences_init fit_fail fit_stub True) X1_no_end
       ''Start'' ''End'' ''Assignment'' = Inl (KeyError ''End'')"
proof -
  have c: "column X1_no_end ''Assignment'' = Inr [Num 1]" "column X1_no_end ''Start'' = Inr [Num 10]"
    "column X1_no_end ''End'' = Inl (KeyError ''End'')"
    by (simp_all add: X1_no_end_def column_def)
  have "did_panel X1_no_end = Inl (KeyError ''End'')"
    by (simp add: did_panel_def select_cols_def column_select_rows c)
  then show ?thesis by (simp add: average_treatment_effect_def)
qed

section \<open>The estimate on the treated\<close>

lemma map_err_num_of: "map_err num_of (map Num xs) = Inr xs"
  by (induction xs) simp_all

lemma mean_Num: "mean (map Num xs) = Inr (mean_real xs)"
  by (simp add: mean_def mean_real_def map_err_num_of)

lemma matched_quotients:
  assumes "column C outcome = Inr (map Num yc)" "\<forall>i\<in>set m. i < length yc"
  shows "map_err (\<lambda>i. bind_err (values_at C outcome i) (\<lambda>v. div_val v k)) m
           = Inr (map (\<lambda>i. yc ! i / real k) m)"
  using assms(2)
proof (induction m)
  case Nil
  show ?case by simp
next
  case (Cons i m)
  then have "i < length yc" and IH: "map_err (\<lambda>i. bind_err (values_at C outcome i) (\<lambda>v. div_val v k)) m
           = Inr (map (\<lambda>i. yc ! i / real k) m)"
    by simp_all
  then show ?case by (simp add: values_at_def assms(1))
qed

lemma sum_list_quotients:
  "sum_list (map (\<lambda>i. (f i :: real) / c) m) = sum_list (map f m) / c"
  by (induction m) (simp_all add: add_divide_distrib)

lemma get_matched_outcome_mean:
  assumes "column C outcome = Inr (map Num yc)" "\<forall>i\<in>set m. i < length yc"
  shows "get_matched_outcome C outcome (Matches m) = Inr (Num (spec_control_outcome yc m))"
  by (simp add: matched_quotients [OF assms] sum_list_quotients spec_control_outcome_def)

lemma control_outcomes:
  assumes "column C outcome = Inr (map Num yc)" "\<forall>m\<in>set ms. \<forall>i\<in>set m. i < length yc"
  shows "map_err (get_matched_outcome C outcome) (map Matches ms)
           = Inr (map (\<lambda>m. Num (spec_control_outcome yc m)) ms)"
  using assms(2)
proof (induction ms)
  case Nil
  show ?case by simp
next
  case (Cons m ms)
  then have "\<forall>i\<in>set m. i < length yc" and
    IH: "map_err (get_matched_outcome C outcome) (map Matches ms)
           = Inr (map (\<lambda>m. Num (spec_control_outcome yc m)) ms)"
    by simp_all
  from get_matched_outcome_mean [OF assms(1) this(1)] IH
  show ?case by (simp del: get_matched_outcome.simps)
qed

lemma estimate_treatments_means:
  assumes "column T ''matches'' = Inr (map Matches ms)"
    and "column C outcome = Inr (map Num yc)"
    and "\<forall>m\<in>set ms. \<forall>i\<in>set m. i < length yc"
  shows "estimate_treatments T C outcome
           = Inr (set_col T ''control outcome'' (map (\<lambda>m. Num (spec_control_outcome yc m)) ms))"
  by (simp add: estimate_treatments_def assms(1) control_outcomes [OF assms(2,3)])


text \<open>
  C4. Let scoring and matching have produced the treated table \<open>T\<close>, whose column
  \<^verbatim>\<open>matches\<close> holds for each row a non-empty list of positions of the control table
  \<open>C\<close>, whose outcome column is numeric. Then \<^verbatim>\<open>estimate_treatments\<close> returns
  \<open>T\<close> with only the column \<^verbatim>\<open>control outcome\<close> set, each cell the unweighted mean of
  the outcomes of the row's matches (the code adds up the outcomes each divided by the
  number of matches), and \<^verbatim>\<open>estimate_ATT\<close> returns the mean of the outcome column of
  that table minus the mean of its control outcomes.
\<close>

theorem estimate_ATT_mean_difference:
  assumes sc: "score L X cts assignment False True s = (Inr X', s1)"
    and m: "match L (heap s1 X') assignment ''propensity score'' n_neighbors = Inr (T, C)"
    and ms: "column T ''matches'' = Inr (map Matches ms)"
    and yc: "column C outcome = Inr (map Num yc)"
    and ok: "\<forall>m\<in>set ms. m \<noteq> [] \<and> (\<forall>i\<in>set m. i < length yc)"
  shows "\<exists>T'. estimate_treatments T C outcome = Inr T' \<and>
           column T' ''control outcome'' = Inr (map (\<lambda>m. Num (spec_control_outcome yc m)) ms) \<and>
           (\<forall>c. c \<noteq> ''control outcome'' \<longrightarrow> column T' c = column T c) \<and>
           (\<forall>yt. column T' outcome = Inr (map Num yt) \<longrightarrow>
              estimate_ATT L X assignment outcome cts n_neighbors s = (Inr (spec_ATT yt yc ms), s1))"
proof -
  let ?co = "map (\<lambda>m. Num (spec_control_outcome yc m)) ms"
  let ?T' = "set_col T ''control outcome'' ?co"
  from ok have ok': "\<forall>m\<in>set ms. \<forall>i\<in>set m. i < length yc" by blast
  have et: "estimate_treatments T C outcome = Inr ?T'"
    by (rule estimate_treatments_means [OF ms yc ok'])
  have co: "column ?T' ''control outcome'' = Inr ?co"
    by (simp add: column_set_col)
  have frame: "\<forall>c. c \<noteq> ''control outcome'' \<longrightarrow> column ?T' c = column T c"
    by (simp add: column_set_col)
  have mco: "mean ?co = Inr (mean_real (map (spec_control_outcome yc) ms))"
    using mean_Num [of "map (spec_control_outcome yc) ms"] by (simp add: comp_def)
  have res: "\<forall>yt. column ?T' outcome = Inr (map Num yt) \<longrightarrow>
              estimate_ATT L X assignment outcome cts n_neighbors s = (Inr (spec_ATT yt yc ms), s1)"
  proof (intro allI impI)
    fix yt assume yt: "column ?T' outcome = Inr (map Num yt)"
    have "att_of_scored L (heap s1 X') assignment outcome n_neighbors = Inr (spec_ATT yt yc ms)"
      by (simp add: att_of_scored_def m et yt co mco mean_Num spec_ATT_def)
    then show "estimate_ATT L X assignment outcome cts n_neighbors s = (Inr (spec_ATT yt yc ms), s1)"
      by (simp add: estimate_ATT_def sc)
  qed
  from et co frame res show ?thesis by blast
qed

lemma score_X6:
  "score lib0 0 [(''x'', ''c'')] ''assignment'' False True (store0 X6) =
     (Inr 0, (store0 X6)\<lparr>heap := (heap (store0 X6))(0 := X6_scored)\<rparr>)"
  by (simp add: score_def score_fit_def select_cols_def column_def X6_def X6_scored_def store0_def lib0_def
      stub_logit_fit_def stub_predict_def set_col_def power2_eq_square)

lemma match_X6:
  "match lib0 X6_scored ''assignment'' ''propensity score'' 2 = Inr (X6_treatments, X6_control)"
  by (simp add: match_def X6_scored_def X6_def X6_treatments_def X6_control_def set_col_def
      column_def select_rows_def eq_num_def keep_def lib0_def stub_nn_fit_def stub_kneighbors_def
      upt_rec [of 0] upt_rec [of 1] upt_rec [of 2] upt_rec [of 3] numeral_2_eq_2 numeral_3_eq_3)


text \<open>
  C4, witness: the table \<open>X6\<close> with two neighbours. The control outcomes are
  \<open>(1 + 3) / 2\<close> and \<open>(8 + 3) / 2\<close>, the estimate is \<open>15 - 15 / 4\<close>.
\<close>

theorem estimate_ATT_mean_difference_witness:
  "\<exists>T'. estimate_treatments X6_treatments X6_control ''y'' = Inr T' \<and>
        column T' ''control outcome'' = Inr [Num 2, Num (11/2)] \<and>
        column T' ''y'' = Inr [Num 10, Num 20] \<and>
        fst (estimate_ATT lib0 0 ''assignment'' ''y'' [(''x'', ''c'')] 2 (store0 X6)) = Inr (Fin (45/4))"
proof -
  let ?s1 = "(store0 X6)\<lparr>heap := (heap (store0 X6))(0 := X6_scored)\<rparr>"
  have m: "match lib0 (heap ?s1 0) ''assignment'' ''propensity score'' 2 = Inr (X6_treatments, X6_control)"
    by (simp add: match_X6)
  have ms: "column X6_treatments ''matches'' = Inr (map Matches [[0, 1], [2, 1]])"
    by (simp add: X6_treatments_def column_def)
  have yc: "column X6_control ''y'' = Inr (map Num [1, 3, 8])"
    by (simp add: X6_control_def column_def)
  have yt: "column X6_treatments ''y'' = Inr (map Num [10, 20])"
    by (simp add: X6_treatments_def column_def)
  have ok: "\<forall>m\<in>set [[0, 1], [2, 1::nat]]. m \<noteq> [] \<and> (\<forall>i\<in>set m. i < length [1, 3, 8::real])"
    by simp
  from estimate_ATT_mean_difference [OF score_X6 m ms yc ok]
  obtain T' where et: "estimate_treatments X6_treatments X6_control ''y'' = Inr T'"
    and co: "column T' ''control outcome''
               = Inr (map (\<lambda>m. Num (spec_control_outcome [1, 3, 8] m)) [[0, 1], [2, 1]])"
    and frame: "\<forall>c. c \<noteq> ''control outcome'' \<longrightarrow> column T' c = column X6_treatments c"
    and res: "\<forall>yt. column T' ''y'' = Inr (map Num yt) \<longrightarrow>
                estimate_ATT lib0 0 ''assignment'' ''y'' [(''x'', ''c'')] 2 (store0 X6)
                  = (Inr (spec_ATT yt [1, 3, 8] [[0, 1], [2, 1]]), ?s1)"
    by blast
  have y': "column T' ''y'' = Inr (map Num [10, 20])"
    using frame yt by simp
  have co': "column T' ''control outcome'' = Inr [Num 2, Num (11/2)]"
    using co by (simp add: spec_control_outcome_def)
  have v: "spec_ATT [10, 20] [1, 3, 8] [[0, 1], [2, 1]] = Fin (45/4)"
    by (simp add: spec_ATT_def mean_real_def spec_control_outcome_def)
  have "estimate_ATT lib0 0 ''assignment'' ''y'' [(''x'', ''c'')] 2 (store0 X6) = (Inr (Fin (45/4)), ?s1)"
    using res [rule_format, of "[10, 20]", OF y'] v by simp
  then have r: "fst (estimate_ATT lib0 0 ''assignment'' ''y'' [(''x'', ''c'')] 2 (store0 X6)) = Inr (Fin (45/4))"
    by simp
  from et co' y' r show ?thesis by auto
qed

section \<open>The decomposition of the average treatment effect\<close>

lemma score_as_table:
  "score L X cts a False True s =
     (case score_table L (heap s X) cts a of
        Inl e \<Rightarrow> (Inl e, s)
      | Inr D' \<Rightarrow> (Inr X, s\<lparr>heap := (heap s)(X := D')\<rparr>))"
  by (cases "score_fit L (heap s X) cts a True")
     (auto simp: score_def score_table_def Let_def split: sum.splits prod.splits)

lemma estimate_ATT_as_table:
  "estimate_ATT L X a y cts k s =
     (case score_table L (heap s X) cts a of
        Inl e \<Rightarrow> (Inl e, s)
      | Inr D' \<Rightarrow> (att_of_scored L D' a y k, s\<lparr>heap := (heap s)(X := D')\<rparr>))"
  by (simp add: estimate_ATT_def score_as_table split: sum.splits)

lemma estimate_ATT_value: "fst (estimate_ATT L X a y cts k s) = att_value L (heap s X) a y cts k"
  by (simp add: estimate_ATT_as_table att_value_def split: sum.splits)

lemma estimate_ATC_value: "fst (estimate_ATC L X a y cts k s) = atc_value L (heap s X) a y cts k"
proof -
  let ?s1 = "s\<lparr>heap := (heap s)(next_ref s := heap s X), next_ref := Suc (next_ref s)\<rparr>"
  show ?thesis
  proof (cases "bind_err (column (heap s X) a) (map_err flip_val)")
    case (Inl e)
    then show ?thesis by (simp add: estimate_ATC_def atc_value_def Let_def)
  next
    case (Inr flipped)
    let ?s2 = "?s1\<lparr>heap := (heap ?s1)(next_ref s := set_col (heap s X) a flipped)\<rparr>"
    have v: "fst (estimate_ATT L (next_ref s) a y cts k ?s2) = att_value L (set_col (heap s X) a flipped) a y cts k"
      by (simp add: estimate_ATT_value)
    show ?thesis
      using Inr v
      by (cases "estimate_ATT L (next_ref s) a y cts k ?s2")
         (auto simp: estimate_ATC_def atc_value_def Let_def split: sum.splits)
  qed
qed

lemma estimate_ATT_frame:
  "Y \<noteq> X \<Longrightarrow> heap (snd (estimate_ATT L X a y cts k s)) Y = heap s Y"
  by (simp add: estimate_ATT_as_table split: sum.splits)

lemma estimate_ATC_frame:
  assumes "X \<noteq> next_ref s"
  shows "heap (snd (estimate_ATC L X a y cts k s)) X = heap s X"
proof -
  let ?s1 = "s\<lparr>heap := (heap s)(next_ref s := heap s X), next_ref := Suc (next_ref s)\<rparr>"
  show ?thesis
  proof (cases "bind_err (column (heap s X) a) (map_err flip_val)")
    case (Inl e)
    then show ?thesis using assms by (simp add: estimate_ATC_def Let_def)
  next
    case (Inr flipped)
    let ?s2 = "?s1\<lparr>heap := (heap ?s1)(next_ref s := set_col (heap s X) a flipped)\<rparr>"
    have f: "heap (snd (estimate_ATT L (next_ref s) a y cts k ?s2)) X = heap ?s2 X"
      using assms by (intro estimate_ATT_frame) simp
    show ?thesis
      using Inr f assms
      by (cases "estimate_ATT L (next_ref s) a y cts k ?s2")
         (auto simp: estimate_ATC_def Let_def split: sum.splits)
  qed
qed


lemma estimate_ATE_value:
  assumes "X \<noteq> next_ref s"
  shows "fst (estimate_ATE L X a y cts k s) =
     bind_err (score_table L (heap s X) cts a) (\<lambda>D'.
     bind_err (att_of_scored L D' a y k) (\<lambda>att.
     bind_err (atc_value L D' a y cts k) (\<lambda>atc.
     bind_err (p_assignment_of D' a) (\<lambda>p. Inr (spec_ATE p att atc)))))"
proof (cases "score_table L (heap s X) cts a")
  case (Inl e)
  then show ?thesis by (simp add: estimate_ATE_def estimate_ATT_as_table)
next
  case (Inr D')
  let ?s1 = "s\<lparr>heap := (heap s)(X := D')\<rparr>"
  have att: "estimate_ATT L X a y cts k s = (att_of_scored L D' a y k, ?s1)"
    by (simp add: estimate_ATT_as_table Inr)
  show ?thesis
  proof (cases "att_of_scored L D' a y k")
    case (Inl e)
    then show ?thesis by (simp add: estimate_ATE_def att Inr)
  next
    case att_v: (Inr v)
    have n: "X \<noteq> next_ref ?s1" using assms by simp
    have c: "fst (estimate_ATC L X a y cts k ?s1) = atc_value L D' a y cts k"
      by (simp add: estimate_ATC_value)
    have h: "heap (snd (estimate_ATC L X a y cts k ?s1)) X = D'"
      using estimate_ATC_frame [OF n, of L a y cts k] by simp
    obtain r2 s2 where atc: "estimate_ATC L X a y cts k ?s1 = (r2, s2)" by fastforce
    with c h have r2: "r2 = atc_value L D' a y cts k" and s2: "heap s2 X = D'" by simp_all
    show ?thesis
      by (cases r2) (simp_all add: estimate_ATE_def att att_v atc Inr r2 [symmetric] s2 spec_ATE_def)
  qed
qed

lemma select_cols_list_cong:
  "\<forall>c\<in>set cs. column X c = column X' c \<Longrightarrow> select_cols_list X cs = select_cols_list X' cs"
  by (induction cs) simp_all

lemma select_cols_cong:
  "\<forall>c\<in>set cs. column X c = column X' c \<Longrightarrow> nrows X = nrows X' \<Longrightarrow> select_cols X cs = select_cols X' cs"
  using select_cols_list_cong [of cs X X'] by (simp add: select_cols_def)

lemma score_loop_cong:
  assumes "nrows X = nrows X'"
  shows "\<forall>c\<in>set (map fst cts). column X c = column X' c \<Longrightarrow>
         score_loop L X cts df rc = score_loop L X' cts df rc"
proof (induction cts arbitrary: df rc)
  case Nil
  show ?case by simp
next
  case (Cons item items)
  then have c: "column X (fst item) = column X' (fst item)"
    and IH: "\<And>df rc. score_loop L X items df rc = score_loop L X' items df rc"
    by simp_all
  have sc: "select_cols X [fst item] = select_cols X' [fst item]"
    using c assms by (intro select_cols_cong) simp_all
  show ?case by (simp add: c sc IH Let_def cong: if_cong)
qed

lemma score_fit_cong:
  assumes "nrows X = nrows X'" "column X a = column X' a"
    and "\<forall>c\<in>set (map fst cts). column X c = column X' c"
  shows "score_fit L X cts a ic = score_fit L X' cts a ic"
proof -
  have sc: "select_cols X [a] = select_cols X' [a]"
    using assms(1,2) by (intro select_cols_cong) simp_all
  show ?thesis
    by (simp add: score_fit_def sc score_loop_cong [OF assms(1,3)])
qed

lemma set_col_list_twice: "set_col_list (set_col_list l c v) c w = set_col_list l c w"
  by (induction l) auto

lemma set_col_twice: "set_col (set_col D c v) c w = set_col D c w"
  by (simp add: set_col_def set_col_list_twice)

lemma set_col_list_commute:
  "c \<noteq> c' \<Longrightarrow> c' \<in> set (map fst l) \<Longrightarrow>
   set_col_list (set_col_list l c v) c' w = set_col_list (set_col_list l c' w) c v"
  by (induction l) auto

lemma set_col_commute:
  assumes "c \<noteq> c'" "column D c' = Inr u"
  shows "set_col (set_col D c v) c' w = set_col (set_col D c' w) c v"
proof -
  have "map_of (cols D) c' \<noteq> None"
    using assms(2) by (auto simp: column_def split: option.splits)
  then have "c' \<in> set (map fst (cols D))"
    by (simp add: map_of_eq_None_iff)
  from set_col_list_commute [OF assms(1) this]
  show ?thesis by (simp add: set_col_def)
qed

lemma score_table_rescored:
  assumes "''propensity score'' \<notin> set (map fst cts)" "a \<noteq> ''propensity score''"
  shows "score_table L (set_col D ''propensity score'' vs) cts a = score_table L D cts a"
proof -
  have "\<forall>c\<in>set (map fst cts). column (set_col D ''propensity score'' vs) c = column D c"
  proof
    fix c assume "c \<in> set (map fst cts)"
    with assms(1) have "c \<noteq> ''propensity score''" by blast
    then show "column (set_col D ''propensity score'' vs) c = column D c"
      by (simp add: column_set_col)
  qed
  moreover have "column (set_col D ''propensity score'' vs) a = column D a"
    using assms(2) by (simp add: column_set_col)
  ultimately have f: "score_fit L (set_col D ''propensity score'' vs) cts a True = score_fit L D cts a True"
    by (intro score_fit_cong) simp_all
  show ?thesis
    by (simp add: score_table_def f set_col_twice cong: if_cong)
qed

lemma att_value_rescored:
  assumes "''propensity score'' \<notin> set (map fst cts)" "a \<noteq> ''propensity score''"
  shows "att_value L (set_col D ''propensity score'' vs) a y cts k = att_value L D a y cts k"
  by (simp add: att_value_def score_table_rescored [OF assms])

lemma atc_value_rescored:
  assumes "''propensity score'' \<notin> set (map fst cts)" "a \<noteq> ''propensity score''"
  shows "atc_value L (set_col D ''propensity score'' vs) a y cts k = atc_value L D a y cts k"
proof (cases "column D a")
  case (Inl e)
  then show ?thesis using assms(2) by (simp add: atc_value_def column_set_col)
next
  case (Inr u)
  have c: "column (set_col D ''propensity score'' vs) a = Inr u"
    using assms(2) Inr by (simp add: column_set_col)
  have "\<And>fl. att_value L (set_col (set_col D ''propensity score'' vs) a fl) a y cts k
            = att_value L (set_col D a fl) a y cts k"
  proof -
    fix fl
    have "set_col (set_col D ''propensity score'' vs) a fl = set_col (set_col D a fl) ''propensity score'' vs"
      using assms(2) Inr by (intro set_col_commute) auto
    then show "att_value L (set_col (set_col D ''propensity score'' vs) a fl) a y cts k
            = att_value L (set_col D a fl) a y cts k"
      by (simp add: att_value_rescored [OF assms])
  qed
  then show ?thesis by (simp add: atc_value_def c Inr)
qed

lemma p_assignment_rescored:
  "a \<noteq> ''propensity score'' \<Longrightarrow>
   p_assignment_of (set_col D ''propensity score'' vs) a = p_assignment_of D a"
  by (simp add: p_assignment_of_def column_set_col select_rows_def cong: if_cong)

lemma bind_err_Inr: "bind_err m f = Inr y \<Longrightarrow> \<exists>x. m = Inr x \<and> f x = Inr y"
  by (cases m) simp_all

lemma score_table_Inr:
  assumes "score_table L D cts a = Inr D'"
  shows "\<exists>vs. D' = set_col D ''propensity score'' vs"
proof -
  from assms obtain fe where
    "bind_err (predict L (fst fe) (snd fe)) (\<lambda>p.
       if length p \<noteq> nrows D then Inl ValueError
       else Inr (set_col D ''propensity score'' (map Num p))) = Inr D'"
    unfolding score_table_def by (blast dest: bind_err_Inr)
  then obtain p where
    "(if length p \<noteq> nrows D then Inl ValueError
      else Inr (set_col D ''propensity score'' (map Num p))) = Inr D'"
    by (blast dest: bind_err_Inr)
  then have "D' = set_col D ''propensity score'' (map Num p)"
    by (simp split: if_splits)
  then show ?thesis by blast
qed

text \<open>Evaluation of the estimators on the example tables.\<close>

lemmas ev = score_table_def score_fit_def select_cols_def column_def set_col_def lib0_def
  stub_get_dummies_def stub_logit_fit_def stub_predict_def stub_nn_fit_def stub_kneighbors_def
  att_of_scored_def match_def select_rows_def eq_num_def keep_def estimate_treatments_def
  values_at_def mean_def att_value_def atc_value_def pymod_def p_assignment_of_def
  power2_eq_square upt_rec [of 0] upt_rec [of 1] upt_rec [of 2] upt_rec [of 3]
  numeral_2_eq_2 numeral_3_eq_3 Let_def

lemmas ev1 = score_table_def score_fit_def select_cols_def column_def set_col_def lib1_def
  stub_get_dummies_def mle_logit_fit_def mle_predict_def mle_table_def stub_nn_fit_def stub_kneighbors_def
  att_of_scored_def match_def select_rows_def eq_num_def keep_def estimate_treatments_def
  values_at_def mean_def att_value_def atc_value_def pymod_def p_assignment_of_def
  upt_rec [of 0] upt_rec [of 1] upt_rec [of 2] upt_rec [of 3]
  numeral_2_eq_2 numeral_3_eq_3 Let_def

lemma att_X7: "att_value lib1 X7 ''assignment'' ''y'' [(''propensity score'', ''c'')] 1 = Inr (Fin (- 15))"
  by (simp add: ev1 X7_def)

lemma atc_X7: "atc_value lib1 X7 ''assignment'' ''y'' [(''propensity score'', ''c'')] 1 = Inr (Fin (- (43/2)))"
  by (simp add: ev1 X7_def)

lemma p_X7: "p_assignment_of X7 ''assignment'' = Inr (1/2)"
  by (simp add: ev1 X7_def)


lemma p_assignment_of_fraction:
  "column D a = Inr av \<Longrightarrow> 0 < nrows D \<Longrightarrow>
   p_assignment_of D a = Inr (real (count_num av 1) / real (nrows D))"
  by (simp add: p_assignment_of_def select_rows_def count_num_def)

lemma att_X6: "att_value lib0 X6 ''assignment'' ''y'' [(''x'', ''c'')] 2 = Inr (Fin (45/4))"
  by (simp add: ev X6_def)

lemma atc_X6: "atc_value lib0 X6 ''assignment'' ''y'' [(''x'', ''c'')] 2 = Inr (Fin 11)"
  by (simp add: ev X6_def)

text \<open>
  C2 (as amended). Let \<^verbatim>\<open>propensity score\<close> be neither the name of a confounder nor
  the assignment column, and \<open>X\<close> refer to a table of the store. Then
  \<^verbatim>\<open>estimate_ATE\<close> on \<open>X\<close> raises what \<^verbatim>\<open>estimate_ATT\<close>, or else
  \<^verbatim>\<open>estimate_ATC\<close>, or else the division by a zero row count raises on the same table
  in the same state, and otherwise returns \<open>p * ATT + (1 - p) * ATC\<close> for the values
  \<open>ATT\<close> and \<open>ATC\<close> they return there, with \<open>p\<close> the number of rows of assignment 1
  divided by the row count.
\<close>

theorem estimate_ATE_decomposition:
  assumes names: "''propensity score'' \<notin> set (map fst cts)" "a \<noteq> ''propensity score''"
    and alloc: "X < next_ref s"
  shows "fst (estimate_ATE L X a y cts k s) =
           bind_err (fst (estimate_ATT L X a y cts k s)) (\<lambda>att.
           bind_err (fst (estimate_ATC L X a y cts k s)) (\<lambda>atc.
           bind_err (p_assignment_of (heap s X) a) (\<lambda>p. Inr (spec_ATE p att atc)))) \<and>
         (\<forall>att atc av.
            fst (estimate_ATT L X a y cts k s) = Inr att \<and>
            fst (estimate_ATC L X a y cts k s) = Inr atc \<and>
            column (heap s X) a = Inr av \<and> 0 < nrows (heap s X) \<longrightarrow>
            fst (estimate_ATE L X a y cts k s) =
              Inr (spec_ATE (real (count_num av 1) / real (nrows (heap s X))) att atc))"
proof -
  let ?D = "heap s X"
  have ne: "X \<noteq> next_ref s" using alloc by simp
  have main: "fst (estimate_ATE L X a y cts k s) =
           bind_err (fst (estimate_ATT L X a y cts k s)) (\<lambda>att.
           bind_err (fst (estimate_ATC L X a y cts k s)) (\<lambda>atc.
           bind_err (p_assignment_of ?D a) (\<lambda>p. Inr (spec_ATE p att atc))))"
  proof (cases "score_table L ?D cts a")
    case (Inl e)
    then show ?thesis
      by (simp add: estimate_ATE_value [OF ne] estimate_ATT_value att_value_def)
  next
    case (Inr D')
    then obtain vs where D': "D' = set_col ?D ''propensity score'' vs"
      by (blast dest: score_table_Inr)
    have c: "atc_value L D' a y cts k = atc_value L ?D a y cts k"
      unfolding D' by (rule atc_value_rescored [OF names])
    have p: "p_assignment_of D' a = p_assignment_of ?D a"
      unfolding D' by (rule p_assignment_rescored [OF names(2)])
    show ?thesis
      by (simp add: estimate_ATE_value [OF ne] estimate_ATT_value estimate_ATC_value
          att_value_def Inr c p)
  qed
  show ?thesis
  proof (intro conjI allI impI)
    show "fst (estimate_ATE L X a y cts k s) =
           bind_err (fst (estimate_ATT L X a y cts k s)) (\<lambda>att.
           bind_err (fst (estimate_ATC L X a y cts k s)) (\<lambda>atc.
           bind_err (p_assignment_of ?D a) (\<lambda>p. Inr (spec_ATE p att atc))))"
      by (rule main)
  next
    fix att atc av
    assume h: "fst (estimate_ATT L X a y cts k s) = Inr att \<and>
            fst (estimate_ATC L X a y cts k s) = Inr atc \<and>
            column ?D a = Inr av \<and> 0 < nrows ?D"
    then have "p_assignment_of ?D a = Inr (real (count_num av 1) / real (nrows ?D))"
      by (simp add: p_assignment_of_fraction)
    with h show "fst (estimate_ATE L X a y cts k s) =
              Inr (spec_ATE (real (count_num av 1) / real (nrows ?D)) att atc)"
      by (simp add: main)
  qed
qed

text \<open>
  C2, witness: the table \<open>X6\<close> with the confounder \<^verbatim>\<open>x\<close> and two neighbours; two of
  its five rows are treated.
\<close>

theorem estimate_ATE_decomposition_witness:
  "fst (estimate_ATT lib0 0 ''assignment'' ''y'' [(''x'', ''c'')] 2 (store0 X6)) = Inr (Fin (45/4)) \<and>
   fst (estimate_ATC lib0 0 ''assignment'' ''y'' [(''x'', ''c'')] 2 (store0 X6)) = Inr (Fin 11) \<and>
   fst (estimate_ATE lib0 0 ''assignment'' ''y'' [(''x'', ''c'')] 2 (store0 X6))
     = Inr (spec_ATE (2/5) (Fin (45/4)) (Fin 11))"
proof -
  have h: "heap (store0 X6) 0 = X6" "(0::nat) < next_ref (store0 X6)"
    by (simp_all add: store0_def)
  have names: "''propensity score'' \<notin> set (map fst [(''x'', ''c'')])" "''assignment'' \<noteq> ''propensity score''"
    by simp_all
  have att: "fst (estimate_ATT lib0 0 ''assignment'' ''y'' [(''x'', ''c'')] 2 (store0 X6)) = Inr (Fin (45/4))"
    by (simp only: estimate_ATT_value h att_X6)
  have atc: "fst (estimate_ATC lib0 0 ''assignment'' ''y'' [(''x'', ''c'')] 2 (store0 X6)) = Inr (Fin 11)"
    by (simp only: estimate_ATC_value h atc_X6)
  have av: "column (heap (store0 X6) 0) ''assignment'' = Inr [Num 1, Num 1, Num 0, Num 0, Num 0]"
    and n: "0 < nrows (heap (store0 X6) 0)"
    unfolding h(1) by (simp_all add: X6_def column_def)
  have cnt: "real (count_num [Num 1, Num 1, Num 0, Num 0, Num 0] 1) / real (nrows (heap (store0 X6) 0)) = 2/5"
    unfolding h(1) by (simp add: X6_def count_num_def eq_num_def)
  from estimate_ATE_decomposition [OF names h(2), of lib0 "''y''" 2, THEN conjunct2, rule_format,
      of "Fin (45/4)" "Fin 11" "[Num 1, Num 1, Num 0, Num 0, Num 0]"] att atc av n
  have "fst (estimate_ATE lib0 0 ''assignment'' ''y'' [(''x'', ''c'')] 2 (store0 X6))
     = Inr (spec_ATE (real (count_num [Num 1, Num 1, Num 0, Num 0, Num 0] 1)
                        / real (nrows (heap (store0 X6) 0))) (Fin (45/4)) (Fin 11))"
    by blast
  then have "fst (estimate_ATE lib0 0 ''assignment'' ''y'' [(''x'', ''c'')] 2 (store0 X6))
     = Inr (spec_ATE (2/5) (Fin (45/4)) (Fin 11))"
    by (simp only: cnt)
  with att atc show ?thesis by (intro conjI)
qed

text \<open>
  C2, counterexample to "for every input table": in the table \<open>X7\<close> the confounder is
  the column \<^verbatim>\<open>propensity score\<close>. On it \<^verbatim>\<open>estimate_ATT\<close> alone returns \<open>-15\<close>
  and \<^verbatim>\<open>estimate_ATC\<close> alone returns \<open>-43 / 2\<close>, and two of the four rows are
  treated, so the claim gives \<open>-73 / 4\<close>. Inside \<^verbatim>\<open>estimate_ATE\<close> the first estimate
  overwrites the confounder with its scores; the second estimate fits the flipped
  assignment on those scores, the third row then matches the fourth row (fitted
  probabilities \<open>0.3734\<close> and \<open>0.1731\<close>) and no longer the second (\<open>0.5818\<close>), the
  second estimate is \<open>-17 / 2\<close>, and the result is \<open>-47 / 4\<close>.
\<close>

theorem estimate_ATE_decomposition_counterexample:
  "fst (estimate_ATT lib1 0 ''assignment'' ''y'' [(''propensity score'', ''c'')] 1 (store1 X7)) = Inr (Fin (- 15)) \<and>
   fst (estimate_ATC lib1 0 ''assignment'' ''y'' [(''propensity score'', ''c'')] 1 (store1 X7)) = Inr (Fin (- (43/2))) \<and>
   p_assignment_of (heap (store1 X7) 0) ''assignment'' = Inr (1/2) \<and>
   spec_ATE (1/2) (Fin (- 15)) (Fin (- (43/2))) = Fin (- (73/4)) \<and>
   fst (estimate_ATE lib1 0 ''assignment'' ''y'' [(''propensity score'', ''c'')] 1 (store1 X7)) = Inr (Fin (- (47/4)))"
proof -
  have h: "heap (store1 X7) 0 = X7" "(0::nat) \<noteq> next_ref (store1 X7)"
    by (simp_all add: store1_def)
  have att: "fst (estimate_ATT lib1 0 ''assignment'' ''y'' [(''propensity score'', ''c'')] 1 (store1 X7)) = Inr (Fin (- 15))"
    by (simp only: estimate_ATT_value h att_X7)
  have atc: "fst (estimate_ATC lib1 0 ''assignment'' ''y'' [(''propensity score'', ''c'')] 1 (store1 X7)) = Inr (Fin (- (43/2)))"
    by (simp only: estimate_ATC_value h atc_X7)
  have p: "p_assignment_of (heap (store1 X7) 0) ''assignment'' = Inr (1/2)"
    by (simp only: h p_X7)
  have sp: "spec_ATE (1/2) (Fin (- 15)) (Fin (- (43/2))) = Fin (- (73/4))"
    by (simp add: spec_ATE_def)
  have ate: "fst (estimate_ATE lib1 0 ''assignment'' ''y'' [(''propensity score'', ''c'')] 1 (store1 X7)) = Inr (Fin (- (47/4)))"
    unfolding estimate_ATE_value [OF h(2)] h(1)
    by (simp add: ev1 X7_def spec_ATE_def)
  from att atc p sp ate show ?thesis by (intro conjI)
qed

end
